theory Spec2Isabelle
  imports Main "HOL-Library.Sublist" "HOL-Library.AList"
begin

section \<open>Strings\<close>

text \<open>
  Python strings are modelled as \<open>string\<close>. \<open>str.lower()\<close> is modelled on the ASCII
  letters \<open>A\<close>..\<open>Z\<close>; every other character is left unchanged.
\<close>

definition upper_lower_table :: "(char \<times> char) list" where
  "upper_lower_table = zip ''ABCDEFGHIJKLMNOPQRSTUVWXYZ'' ''abcdefghijklmnopqrstuvwxyz''"

definition lower_char :: "char \<Rightarrow> char" where
  "lower_char c = (case map_of upper_lower_table c of Some l \<Rightarrow> l | None \<Rightarrow> c)"

definition lower :: "string \<Rightarrow> string" where
  "lower s = map lower_char s"

text \<open>\<open>s.startswith(p)\<close>\<close>

fun startswith :: "string \<Rightarrow> string \<Rightarrow> bool" where
  "startswith s [] = True"
| "startswith [] (p # ps) = False"
| "startswith (c # cs) (p # ps) = (c = p \<and> startswith cs ps)"

text \<open>\<open>sub in s\<close> on strings: \<open>sub\<close> occurs in \<open>s\<close> as a contiguous substring.\<close>

fun str_in :: "string \<Rightarrow> string \<Rightarrow> bool" where
  "str_in sub [] = (sub = [])"
| "str_in sub (c # cs) = (startswith (c # cs) sub \<or> str_in sub cs)"

text \<open>\<open>s.split('\n')\<close>: the pieces between newlines; a string without newline is one piece.\<close>

fun split_nl_acc :: "string \<Rightarrow> string \<Rightarrow> string list" where
  "split_nl_acc cur [] = [cur]"
| "split_nl_acc cur (c # cs) =
     (if c = CHR 0x0A then cur # split_nl_acc [] cs else split_nl_acc (cur @ [c]) cs)"

definition split_nl :: "string \<Rightarrow> string list" where
  "split_nl s = split_nl_acc [] s"

section \<open>Cluster objects and the gateway\<close>

text \<open>
  An exception is modelled by its message (\<open>str(e)\<close>); a call that may raise returns
  \<open>exn + 'a\<close> with \<open>Inl\<close> the exception. A field that the source tests before use
  (\<open>if pod.metadata.owner_references:\<close>) is an \<open>option\<close>; the other fields, such as
  the name of an object or the message of an event, are taken to be present, as the
  source takes them. Time stamps are the strings that \<open>json.dumps(..., default=str)\<close>
  writes for them.
\<close>

type_synonym exn = string

record owner_reference =
  owner_kind :: string
  owner_name :: string

record container_resources =
  requests :: "(string \<times> string) list option"
  limits :: "(string \<times> string) list option"

record container =
  resources :: "container_resources option"

record pod =
  pod_name :: string
  pod_namespace :: string
  pod_owner_references :: "owner_reference list option"
  pod_phase :: string
  pod_container_statuses :: "bool list option"
  pod_creation_timestamp :: string
  pod_node_name :: "string option"
  pod_containers :: "container list option"

record deployment =
  deploy_name :: string
  deploy_namespace :: string
  deploy_owner_references :: "owner_reference list option"
  deploy_labels :: "(string \<times> string) list option"
  deploy_replicas :: "int option"
  deploy_ready_replicas :: "int option"
  deploy_images :: "string list option"
  deploy_creation_timestamp :: string

record csv =
  csv_name :: string
  csv_display_name :: string
  csv_version :: string
  csv_description :: string
  csv_phase :: string
  csv_owned :: "(string \<times> string) list option"

record event =
  event_namespace :: string
  event_involved_object_name :: string
  event_message :: string
  event_reason :: string
  event_type :: string
  event_last_timestamp :: string

record build =
  build_name :: string
  build_namespace :: string

record taint =
  taint_key :: string
  taint_value :: "string option"
  taint_effect :: string

record condition =
  condition_type :: string
  condition_status :: string
  condition_reason :: string
  condition_message :: string

record node =
  node_name :: string
  node_labels :: "(string \<times> string) list option"
  node_annotations :: "(string \<times> string) list option"
  node_taints :: "taint list option"
  node_allocatable :: "(string \<times> string) list option"
  node_conditions :: "condition list option"

record subscription =
  sub_name :: string
  sub_namespace :: string
  sub_current_csv :: "string option"
  sub_package :: string
  sub_channel :: string
  sub_source :: string
  sub_source_namespace :: string
  sub_created :: string

record helm_repo =
  repo_name :: string
  repo_namespace :: "string option"
  repo_url :: string
  repo_created :: string

text \<open>
  The cluster gateway (\<open>openshift_manager\<close>): which clients were created, and the outcome
  of each API call the tools make, as a function of the call's arguments. A namespace
  argument is a \<open>string option\<close> where a caller can pass \<open>None\<close>. Looking a resource
  kind up in the dynamic client and listing it are one call here
  (\<open>csv_list\<close>, \<open>build_list\<close>): both stand in the same \<open>try\<close> block.
\<close>

record gateway =
  v1_present :: bool
  dynamic_client_present :: bool
  csv_list :: "string option \<Rightarrow> exn + csv list"
  list_namespaced_deployment :: "string option \<Rightarrow> exn + deployment list"
  list_namespaced_pod :: "string option \<Rightarrow> exn + pod list"
  list_pod_for_all_namespaces :: "exn + pod list"
  read_namespaced_pod_log :: "string \<Rightarrow> string \<Rightarrow> int \<Rightarrow> exn + string"
  list_event_for_all_namespaces :: "exn + event list"
  list_namespaced_event :: "string \<Rightarrow> exn + event list"
  build_list_all :: "exn + build list"
  build_list :: "string \<Rightarrow> exn + build list"
  get_build_log :: "string \<Rightarrow> string \<Rightarrow> exn + string"
  list_node :: "exn + node list"
  list_deployment_for_all_namespaces :: "exn + deployment list"
  subscription_list_all :: "exn + subscription list"
  subscription_list :: "string \<Rightarrow> exn + subscription list"
  get_csv :: "string \<Rightarrow> string \<Rightarrow> exn + csv"
  helm_repo_list :: "exn + helm_repo list"

definition is_available :: "'a gateway_scheme \<Rightarrow> bool" where
  "is_available g = (v1_present g \<and> dynamic_client_present g)"

text \<open>
  A tool returns a string: either a plain message, or the JSON text of a value.
  \<open>Json v\<close> stands for \<open>json.dumps(v)\<close>; \<open>json.loads\<close> gives \<open>v\<close> back on it and raises
  on a plain message (none of the messages is JSON).
\<close>

datatype 'a tool_output = Text string | Json 'a

text \<open>
  A dictionary is an association list in insertion order; \<open>d[k] = v\<close> replaces the
  value of a key that is there and appends a new key.
\<close>

definition dict_set :: "(string \<times> 'v) list \<Rightarrow> string \<Rightarrow> 'v \<Rightarrow> (string \<times> 'v) list" where
  "dict_set d k v = AList.update k v d"

definition json_loads :: "'a tool_output \<Rightarrow> exn + 'a" where
  "json_loads out = (case out of Text s \<Rightarrow> Inl ''JSONDecodeError'' | Json v \<Rightarrow> Inr v)"

section \<open>get_operator_pods\<close>

record pod_entry =
  entry_name :: string
  entry_namespace :: string
  entry_status :: string
  entry_ready :: nat
  entry_containers :: nat
  entry_created :: string
  entry_node :: "string option"

definition pod_entry_of :: "pod \<Rightarrow> pod_entry" where
  "pod_entry_of p =
     \<lparr> entry_name = pod_name p,
       entry_namespace = pod_namespace p,
       entry_status = pod_phase p,
       entry_ready = (case pod_container_statuses p of
                        None \<Rightarrow> 0 | Some cs \<Rightarrow> length (filter (\<lambda>r. r) cs)),
       entry_containers = (case pod_container_statuses p of
                        None \<Rightarrow> 0 | Some cs \<Rightarrow> length cs),
       entry_created = pod_creation_timestamp p,
       entry_node = pod_node_name p \<rparr>"

text \<open>\<open>for csv in csvs.items: if operator_name in csv.metadata.name: target_csv = csv; break\<close>\<close>

fun find_target_csv :: "string \<Rightarrow> csv list \<Rightarrow> csv option" where
  "find_target_csv operator_name [] = None"
| "find_target_csv operator_name (c # cs) =
     (if str_in operator_name (csv_name c) then Some c
      else find_target_csv operator_name cs)"

text \<open>The loop over one deployment's owner references, appending the deployment.\<close>

fun deploy_owner_loop ::
  "string \<Rightarrow> deployment \<Rightarrow> owner_reference list \<Rightarrow> deployment list \<Rightarrow> deployment list" where
  "deploy_owner_loop target d [] operator_deployments = operator_deployments"
| "deploy_owner_loop target d (ow # ows) operator_deployments =
     deploy_owner_loop target d ows
       (if owner_kind ow = ''ClusterServiceVersion'' \<and> owner_name ow = target
        then operator_deployments @ [d] else operator_deployments)"

fun deployments_loop ::
  "string \<Rightarrow> deployment list \<Rightarrow> deployment list \<Rightarrow> deployment list" where
  "deployments_loop target [] operator_deployments = operator_deployments"
| "deployments_loop target (d # ds) operator_deployments =
     deployments_loop target ds
       (case deploy_owner_references d of
          None \<Rightarrow> operator_deployments
        | Some ows \<Rightarrow> deploy_owner_loop target d ows operator_deployments)"

text \<open>
  \<open>for deploy in operator_deployments: rs_name = f"{deploy.metadata.name}-";
  if owner.name.startswith(rs_name): operator_pods.append({...})\<close>
\<close>

fun rs_deploy_loop ::
  "pod \<Rightarrow> owner_reference \<Rightarrow> deployment list \<Rightarrow> pod_entry list \<Rightarrow> pod_entry list" where
  "rs_deploy_loop p ow [] operator_pods = operator_pods"
| "rs_deploy_loop p ow (d # ds) operator_pods =
     rs_deploy_loop p ow ds
       (if startswith (owner_name ow) (deploy_name d @ ''-'')
        then operator_pods @ [pod_entry_of p] else operator_pods)"

fun pod_owner_loop ::
  "deployment list \<Rightarrow> pod \<Rightarrow> owner_reference list \<Rightarrow> pod_entry list \<Rightarrow> pod_entry list" where
  "pod_owner_loop operator_deployments p [] operator_pods = operator_pods"
| "pod_owner_loop operator_deployments p (ow # ows) operator_pods =
     pod_owner_loop operator_deployments p ows
       (if owner_kind ow = ''ReplicaSet''
        then rs_deploy_loop p ow operator_deployments operator_pods
        else operator_pods)"

fun owner_chain_loop ::
  "deployment list \<Rightarrow> pod list \<Rightarrow> pod_entry list \<Rightarrow> pod_entry list" where
  "owner_chain_loop operator_deployments [] operator_pods = operator_pods"
| "owner_chain_loop operator_deployments (p # ps) operator_pods =
     owner_chain_loop operator_deployments ps
       (case pod_owner_references p of
          None \<Rightarrow> operator_pods
        | Some ows \<Rightarrow> pod_owner_loop operator_deployments p ows operator_pods)"

text \<open>
  Method 1 of the source, run when a target CSV was found: list the deployments, keep
  those owned by the CSV, list the pods, keep those owned by a replica set of such a
  deployment. Either list call can raise.
\<close>

definition owner_chain ::
  "'a gateway_scheme \<Rightarrow> string option \<Rightarrow> csv \<Rightarrow> exn + pod_entry list" where
  "owner_chain g project target_csv =
     (case list_namespaced_deployment g project of
        Inl e \<Rightarrow> Inl e
      | Inr deployments \<Rightarrow>
          (case list_namespaced_pod g project of
             Inl e \<Rightarrow> Inl e
           | Inr pods \<Rightarrow>
               Inr (owner_chain_loop
                      (deployments_loop (csv_name target_csv) deployments []) pods [])))"

text \<open>
  \<open>for pod in pods.items: if operator_name.lower() in pod.metadata.name.lower():
  operator_pods.append({...})\<close>
\<close>

fun name_loop :: "string \<Rightarrow> pod list \<Rightarrow> pod_entry list \<Rightarrow> pod_entry list" where
  "name_loop operator_name [] operator_pods = operator_pods"
| "name_loop operator_name (p # ps) operator_pods =
     name_loop operator_name ps
       (if str_in (lower operator_name) (lower (pod_name p))
        then operator_pods @ [pod_entry_of p] else operator_pods)"

definition name_heuristic ::
  "'a gateway_scheme \<Rightarrow> string \<Rightarrow> string option \<Rightarrow> exn + pod_entry list" where
  "name_heuristic g operator_name project =
     (case list_namespaced_pod g project of
        Inl e \<Rightarrow> Inl e
      | Inr pods \<Rightarrow> Inr (name_loop operator_name pods []))"

text \<open>
  Method 1 as a whole: the CSV lookup, then the owner chain of the first CSV whose name
  contains \<open>operator_name\<close>; \<open>operator_pods\<close> stays empty when no CSV matches.
\<close>

definition owner_chain_result ::
  "'a gateway_scheme \<Rightarrow> string \<Rightarrow> string option \<Rightarrow> exn + pod_entry list" where
  "owner_chain_result g operator_name project =
     (case csv_list g project of
        Inl e \<Rightarrow> Inl e
      | Inr csvs \<Rightarrow>
          (case find_target_csv operator_name csvs of
             None \<Rightarrow> Inr []
           | Some target_csv \<Rightarrow> owner_chain g project target_csv))"

text \<open>
  The body of the \<open>try\<close> block: method 1, then method 2 \<open>if not operator_pods\<close>.
  \<open>Inl\<close> is an exception that reaches the handler.
\<close>

definition get_operator_pods_try ::
  "'a gateway_scheme \<Rightarrow> string \<Rightarrow> string option \<Rightarrow> exn + pod_entry list" where
  "get_operator_pods_try g operator_name project =
     (case owner_chain_result g operator_name project of
        Inl e \<Rightarrow> Inl e
      | Inr operator_pods \<Rightarrow>
          if operator_pods = [] then name_heuristic g operator_name project
          else Inr operator_pods)"

definition get_operator_pods ::
  "'a gateway_scheme \<Rightarrow> string \<Rightarrow> string option \<Rightarrow> pod_entry list tool_output" where
  "get_operator_pods g operator_name project =
     (if \<not> is_available g then Text ''OpenShift API not available''
      else case get_operator_pods_try g operator_name project of
             Inl e \<Rightarrow> Text (''Error getting operator pods: '' @ e)
           | Inr operator_pods \<Rightarrow> Json operator_pods)"

section \<open>search_all_logs\<close>

text \<open>
  One entry of \<open>results\<close>: the dictionaries the source appends, by their \<open>"type"\<close>.
  \<open>Pod_log source matches\<close>, \<open>Event_hit source message reason event_type timestamp\<close>,
  \<open>Build_log source matches\<close>, \<open>Error_item message\<close>.
\<close>

datatype search_item =
    Pod_log string "string list"
  | Event_hit string string string string string
  | Build_log string "string list"
  | Error_item string

text \<open>
  The loop over \<open>pods.items[:20]\<close>: an exception of the log fetch is caught by the inner
  \<open>except: continue\<close>.
\<close>

fun pod_log_loop ::
  "'a gateway_scheme \<Rightarrow> string \<Rightarrow> int \<Rightarrow> pod list \<Rightarrow> search_item list \<Rightarrow> search_item list" where
  "pod_log_loop g query lines [] results = results"
| "pod_log_loop g query lines (p # ps) results =
     pod_log_loop g query lines ps
       (case read_namespaced_pod_log g (pod_name p) (pod_namespace p) lines of
          Inl e \<Rightarrow> results
        | Inr logs \<Rightarrow>
            if str_in (lower query) (lower logs)
            then results @
              [Pod_log (pod_namespace p @ ''/'' @ pod_name p)
                 (take 5 (filter (\<lambda>line. str_in (lower query) (lower line)) (split_nl logs)))]
            else results)"

definition search_pod_logs ::
  "'a gateway_scheme \<Rightarrow> string \<Rightarrow> string \<Rightarrow> string \<Rightarrow> int \<Rightarrow> search_item list
     \<Rightarrow> search_item list" where
  "search_pod_logs g query project resource_types lines results =
     (if resource_types = ''all'' \<or> resource_types = ''pod'' then
        (case (if project = ''all'' then list_pod_for_all_namespaces g
               else list_namespaced_pod g (Some project)) of
           Inl e \<Rightarrow> results @ [Error_item (''Pod log search error: '' @ e)]
         | Inr pods \<Rightarrow> pod_log_loop g query lines (take 20 pods) results)
      else results)"

fun event_loop :: "string \<Rightarrow> event list \<Rightarrow> search_item list \<Rightarrow> search_item list" where
  "event_loop query [] results = results"
| "event_loop query (ev # evs) results =
     event_loop query evs
       (if str_in (lower query) (lower (event_message ev))
        then results @
          [Event_hit (event_namespace ev @ ''/'' @ event_involved_object_name ev)
             (event_message ev) (event_reason ev) (event_type ev) (event_last_timestamp ev)]
        else results)"

definition search_events ::
  "'a gateway_scheme \<Rightarrow> string \<Rightarrow> string \<Rightarrow> string \<Rightarrow> search_item list \<Rightarrow> search_item list" where
  "search_events g query project resource_types results =
     (if resource_types = ''all'' \<or> resource_types = ''event'' then
        (case (if project = ''all'' then list_event_for_all_namespaces g
               else list_namespaced_event g project) of
           Inl e \<Rightarrow> results @ [Error_item (''Event search error: '' @ e)]
         | Inr events \<Rightarrow> event_loop query events results)
      else results)"

text \<open>
  The loop over \<open>builds.items[:10]\<close>: an exception of the build-log fetch is caught by
  the inner \<open>except: continue\<close>.
\<close>

fun build_log_loop ::
  "'a gateway_scheme \<Rightarrow> string \<Rightarrow> build list \<Rightarrow> search_item list \<Rightarrow> search_item list" where
  "build_log_loop g query [] results = results"
| "build_log_loop g query (b # bs) results =
     build_log_loop g query bs
       (case get_build_log g (build_name b) (build_namespace b) of
          Inl e \<Rightarrow> results
        | Inr build_logs \<Rightarrow>
            if str_in (lower query) (lower build_logs)
            then results @
              [Build_log (build_namespace b @ ''/'' @ build_name b)
                 (take 3 (filter (\<lambda>line. str_in (lower query) (lower line))
                    (split_nl build_logs)))]
            else results)"

definition search_build_logs ::
  "'a gateway_scheme \<Rightarrow> string \<Rightarrow> string \<Rightarrow> string \<Rightarrow> search_item list \<Rightarrow> search_item list" where
  "search_build_logs g query project resource_types results =
     (if resource_types = ''all'' \<or> resource_types = ''build'' then
        (case (if project = ''all'' then build_list_all g else build_list g project) of
           Inl e \<Rightarrow> results
         | Inr builds \<Rightarrow> build_log_loop g query (take 10 builds) results)
      else results)"

definition search_all_logs ::
  "'a gateway_scheme \<Rightarrow> string \<Rightarrow> string \<Rightarrow> string \<Rightarrow> int \<Rightarrow> search_item list tool_output" where
  "search_all_logs g query project resource_types lines =
     (if \<not> is_available g then Text ''OpenShift API not available''
      else Json
        (search_build_logs g query project resource_types
          (search_events g query project resource_types
            (search_pod_logs g query project resource_types lines []))))"

text \<open>
  A pod log as the list of its lines, each ended by a newline, and the text the
  cluster API returns for \<open>tail_lines = n\<close>: the last \<open>n\<close> lines.
\<close>

definition log_text :: "string list \<Rightarrow> string" where
  "log_text ls = concat (map (\<lambda>l. l @ [CHR 0x0A]) ls)"

definition tail_lines :: "int \<Rightarrow> string list \<Rightarrow> string list" where
  "tail_lines n ls = drop (length ls - nat n) ls"

section \<open>get_all_operators and get_nvidia_operators\<close>

text \<open>
  The dictionaries \<open>get_all_operators\<close> appends, by their \<open>"type"\<close>. A key that a
  dictionary does not have is not a field of its record; a value that can be \<open>null\<close>
  is an \<open>option\<close>.
\<close>

record csv_info =
  ci_display_name :: string
  ci_version :: string
  ci_description :: string
  ci_phase :: string
  ci_owned_resources :: "(string \<times> string) list"

record olm_operator =
  olm_name :: string
  olm_namespace :: string
  olm_package :: string
  olm_channel :: string
  olm_source :: string
  olm_source_namespace :: string
  olm_installed_csv :: "string option"
  olm_csv_info :: "csv_info option"
  olm_created :: string

record helm_operator =
  helm_name :: string
  helm_namespace :: "string option"
  helm_url :: string
  helm_created :: string

record custom_operator =
  custom_name :: string
  custom_namespace :: string
  custom_replicas :: "int option"
  custom_ready_replicas :: "int option"
  custom_image :: "string option"
  custom_created :: string

datatype operator_entry =
    OLM olm_operator
  | Helm helm_operator
  | Custom custom_operator
  | Operator_error string

text \<open>
  The CSV lookup of one subscription, inside its own \<open>try\<close>: any exception leaves
  \<open>csv_info\<close> at \<open>None\<close>.
\<close>

definition csv_info_of :: "'a gateway_scheme \<Rightarrow> subscription \<Rightarrow> csv_info option" where
  "csv_info_of g sub =
     (case sub_current_csv sub of
        None \<Rightarrow> None
      | Some csv_name' \<Rightarrow>
          if csv_name' = [] then None
          else (case get_csv g csv_name' (sub_namespace sub) of
                  Inl e \<Rightarrow> None
                | Inr c \<Rightarrow>
                    Some \<lparr> ci_display_name = csv_display_name c,
                           ci_version = csv_version c,
                           ci_description = csv_description c,
                           ci_phase = csv_phase c,
                           ci_owned_resources =
                             (case csv_owned c of None \<Rightarrow> [] | Some owned \<Rightarrow> owned) \<rparr>))"

fun olm_loop ::
  "'a gateway_scheme \<Rightarrow> subscription list \<Rightarrow> operator_entry list \<Rightarrow> operator_entry list" where
  "olm_loop g [] all_operators = all_operators"
| "olm_loop g (sub # subs) all_operators =
     olm_loop g subs
       (all_operators @
          [OLM \<lparr> olm_name = sub_name sub,
                 olm_namespace = sub_namespace sub,
                 olm_package = sub_package sub,
                 olm_channel = sub_channel sub,
                 olm_source = sub_source sub,
                 olm_source_namespace = sub_source_namespace sub,
                 olm_installed_csv = sub_current_csv sub,
                 olm_csv_info = csv_info_of g sub,
                 olm_created = sub_created sub \<rparr>])"

definition olm_operators ::
  "'a gateway_scheme \<Rightarrow> string \<Rightarrow> operator_entry list \<Rightarrow> operator_entry list" where
  "olm_operators g project all_operators =
     (case (if project = ''all'' then subscription_list_all g else subscription_list g project) of
        Inl e \<Rightarrow> all_operators @ [Operator_error (''Error getting OLM operators: '' @ e)]
      | Inr subscriptions \<Rightarrow> olm_loop g subscriptions all_operators)"

fun helm_loop :: "helm_repo list \<Rightarrow> operator_entry list \<Rightarrow> operator_entry list" where
  "helm_loop [] all_operators = all_operators"
| "helm_loop (repo # repos) all_operators =
     helm_loop repos
       (all_operators @
          [Helm \<lparr> helm_name = repo_name repo,
                  helm_namespace = repo_namespace repo,
                  helm_url = repo_url repo,
                  helm_created = repo_created repo \<rparr>])"

definition helm_operators ::
  "'a gateway_scheme \<Rightarrow> operator_entry list \<Rightarrow> operator_entry list" where
  "helm_operators g all_operators =
     (case helm_repo_list g of
        Inl e \<Rightarrow> all_operators
      | Inr helm_repos \<Rightarrow> helm_loop helm_repos all_operators)"

text \<open>
  The loop over the deployments. \<open>deploy.metadata.labels.get(...)\<close> is evaluated only
  when neither name test holds, and raises when the deployment has no labels; the
  handler of the enclosing \<open>try\<close> then appends an error entry after the entries
  already appended. The text of Python's \<open>AttributeError\<close> is written without its
  quotation marks.
\<close>

fun custom_loop :: "deployment list \<Rightarrow> operator_entry list \<Rightarrow> operator_entry list" where
  "custom_loop [] all_operators = all_operators"
| "custom_loop (deploy # deploys) all_operators =
     (if str_in ''operator'' (lower (deploy_name deploy)) \<or>
         str_in ''controller'' (lower (deploy_name deploy))
      then custom_loop deploys
             (all_operators @
                [Custom \<lparr> custom_name = deploy_name deploy,
                          custom_namespace = deploy_namespace deploy,
                          custom_replicas = deploy_replicas deploy,
                          custom_ready_replicas = deploy_ready_replicas deploy,
                          custom_image = (case deploy_images deploy of
                                            Some (img # imgs) \<Rightarrow> Some img
                                          | _ \<Rightarrow> None),
                          custom_created = deploy_creation_timestamp deploy \<rparr>])
      else (case deploy_labels deploy of
              None \<Rightarrow>
                all_operators @
                  [Operator_error (''Error getting custom operators: '' @
                     ''AttributeError: NoneType object has no attribute get'')]
            | Some labels \<Rightarrow>
                if map_of labels ''app.kubernetes.io/component'' = Some ''operator''
                then custom_loop deploys
                       (all_operators @
                          [Custom \<lparr> custom_name = deploy_name deploy,
                                    custom_namespace = deploy_namespace deploy,
                                    custom_replicas = deploy_replicas deploy,
                                    custom_ready_replicas = deploy_ready_replicas deploy,
                                    custom_image = (case deploy_images deploy of
                                                      Some (img # imgs) \<Rightarrow> Some img
                                                    | _ \<Rightarrow> None),
                                    custom_created = deploy_creation_timestamp deploy \<rparr>])
                else custom_loop deploys all_operators))"

definition custom_operators ::
  "'a gateway_scheme \<Rightarrow> string \<Rightarrow> operator_entry list \<Rightarrow> operator_entry list" where
  "custom_operators g project all_operators =
     (case (if project = ''all'' then list_deployment_for_all_namespaces g
            else list_namespaced_deployment g (Some project)) of
        Inl e \<Rightarrow> all_operators @ [Operator_error (''Error getting custom operators: '' @ e)]
      | Inr deployments \<Rightarrow> custom_loop deployments all_operators)"

definition get_all_operators ::
  "'a gateway_scheme \<Rightarrow> string \<Rightarrow> operator_entry list tool_output" where
  "get_all_operators g project =
     (if \<not> is_available g then Text ''OpenShift API not available''
      else Json (custom_operators g project (helm_operators g (olm_operators g project []))))"

text \<open>\<open>operator.get("name", "")\<close>, \<open>operator.get("package", "")\<close> and the display name.\<close>

fun operator_get_name :: "operator_entry \<Rightarrow> string" where
  "operator_get_name (OLM x) = olm_name x"
| "operator_get_name (Helm x) = helm_name x"
| "operator_get_name (Custom x) = custom_name x"
| "operator_get_name (Operator_error m) = ''''"

fun operator_get_package :: "operator_entry \<Rightarrow> string" where
  "operator_get_package (OLM x) = olm_package x"
| "operator_get_package other = ''''"

fun operator_display_name :: "operator_entry \<Rightarrow> string" where
  "operator_display_name (OLM x) =
     (case olm_csv_info x of None \<Rightarrow> '''' | Some ci \<Rightarrow> lower (ci_display_name ci))"
| "operator_display_name other = ''''"

definition nvidia_keywords :: "string list" where
  "nvidia_keywords = [''nvidia'', ''gpu'', ''cuda'', ''mellanox'', ''connectx'']"

text \<open>
  \<open>any(keyword in name or keyword in package or keyword in display_name
  for keyword in ["nvidia", "gpu", "cuda", "mellanox", "connectx"])\<close>
\<close>

definition is_nvidia_operator :: "operator_entry \<Rightarrow> bool" where
  "is_nvidia_operator operator =
     list_ex (\<lambda>keyword. str_in keyword (lower (operator_get_name operator)) \<or>
                        str_in keyword (lower (operator_get_package operator)) \<or>
                        str_in keyword (operator_display_name operator))
       nvidia_keywords"

fun nvidia_loop :: "operator_entry list \<Rightarrow> operator_entry list \<Rightarrow> operator_entry list" where
  "nvidia_loop [] nvidia_operators = nvidia_operators"
| "nvidia_loop (operator # operators) nvidia_operators =
     nvidia_loop operators
       (if is_nvidia_operator operator then nvidia_operators @ [operator]
        else nvidia_operators)"

definition get_nvidia_operators ::
  "'a gateway_scheme \<Rightarrow> string \<Rightarrow> operator_entry list tool_output" where
  "get_nvidia_operators g project =
     (if \<not> is_available g then Text ''OpenShift API not available''
      else case json_loads (get_all_operators g project) of
             Inl e \<Rightarrow> Text (''Error getting NVIDIA operators: '' @ e)
           | Inr operators_data \<Rightarrow> Json (nvidia_loop operators_data []))"

section \<open>get_gpu_nodes\<close>

record gpu_node_info =
  gn_name :: string
  gn_labels :: "(string \<times> string) list option"
  gn_taints :: "taint list"
  gn_gpu_resources :: "(string \<times> string) list"
  gn_nvidia_labels :: "(string \<times> string) list"
  gn_conditions :: "condition list"

text \<open>
  \<open>"nvidia.com" in resource or "gpu" in resource.lower()\<close>: the test the source writes
  out on allocatable resources of a node and on the requests and the limits of a
  container.
\<close>

definition is_gpu_resource :: "string \<Rightarrow> bool" where
  "is_gpu_resource resource = (str_in ''nvidia.com'' resource \<or> str_in ''gpu'' (lower resource))"

text \<open>\<open>"nvidia" in label.lower() or "gpu" in label.lower()\<close>\<close>

definition is_nvidia_label :: "string \<Rightarrow> bool" where
  "is_nvidia_label label = (str_in ''nvidia'' (lower label) \<or> str_in ''gpu'' (lower label))"

text \<open>\<open>for k, v in items: if test(k): d[k] = v\<close>\<close>

fun collect_items ::
  "(string \<Rightarrow> bool) \<Rightarrow> (string \<times> string) list \<Rightarrow> (string \<times> string) list
     \<Rightarrow> (string \<times> string) list" where
  "collect_items test [] d = d"
| "collect_items test ((k, v) # items) d =
     collect_items test items (if test k then dict_set d k v else d)"

definition gpu_node_info_of :: "node \<Rightarrow> gpu_node_info" where
  "gpu_node_info_of n =
     \<lparr> gn_name = node_name n,
       gn_labels = node_labels n,
       gn_taints = (case node_taints n of None \<Rightarrow> [] | Some ts \<Rightarrow> ts),
       gn_gpu_resources =
         (case node_allocatable n of
            None \<Rightarrow> [] | Some items \<Rightarrow> collect_items is_gpu_resource items []),
       gn_nvidia_labels =
         (case node_labels n of
            None \<Rightarrow> [] | Some items \<Rightarrow> collect_items is_nvidia_label items []),
       gn_conditions =
         (case node_conditions n of
            None \<Rightarrow> []
          | Some cs \<Rightarrow>
              filter (\<lambda>c. condition_type c \<in> set [''Ready'', ''GPUReady'', ''NvidiaGPU'']) cs) \<rparr>"

fun gpu_nodes_loop :: "node list \<Rightarrow> gpu_node_info list \<Rightarrow> gpu_node_info list" where
  "gpu_nodes_loop [] gpu_nodes = gpu_nodes"
| "gpu_nodes_loop (n # ns) gpu_nodes =
     gpu_nodes_loop ns
       (if gn_gpu_resources (gpu_node_info_of n) \<noteq> [] \<or>
           gn_nvidia_labels (gpu_node_info_of n) \<noteq> []
        then gpu_nodes @ [gpu_node_info_of n] else gpu_nodes)"

definition get_gpu_nodes :: "'a gateway_scheme \<Rightarrow> gpu_node_info list tool_output" where
  "get_gpu_nodes g =
     (if \<not> is_available g then Text ''OpenShift API not available''
      else case list_node g of
             Inl e \<Rightarrow> Text (''Error getting GPU nodes: '' @ e)
           | Inr nodes \<Rightarrow> Json (gpu_nodes_loop nodes []))"

section \<open>get_gpu_workloads\<close>

record gpu_workload =
  gw_name :: string
  gw_namespace :: string
  gw_status :: string
  gw_node :: "string option"
  gw_gpu_requests :: "(string \<times> string) list"
  gw_gpu_limits :: "(string \<times> string) list"
  gw_created :: string

text \<open>
  The state of the scan of one pod: \<open>pod_info["gpu_requests"]\<close>,
  \<open>pod_info["gpu_limits"]\<close> and \<open>has_gpu\<close>.
\<close>

type_synonym gpu_scan = "(string \<times> string) list \<times> (string \<times> string) list \<times> bool"

fun gpu_requests_loop :: "(string \<times> string) list \<Rightarrow> gpu_scan \<Rightarrow> gpu_scan" where
  "gpu_requests_loop [] st = st"
| "gpu_requests_loop ((resource, quantity) # items) (reqs, lims, has_gpu) =
     gpu_requests_loop items
       (if is_gpu_resource resource then (dict_set reqs resource quantity, lims, True)
        else (reqs, lims, has_gpu))"

fun gpu_limits_loop :: "(string \<times> string) list \<Rightarrow> gpu_scan \<Rightarrow> gpu_scan" where
  "gpu_limits_loop [] st = st"
| "gpu_limits_loop ((resource, quantity) # items) (reqs, lims, has_gpu) =
     gpu_limits_loop items
       (if is_gpu_resource resource then (reqs, dict_set lims resource quantity, True)
        else (reqs, lims, has_gpu))"

definition gpu_container_step :: "container \<Rightarrow> gpu_scan \<Rightarrow> gpu_scan" where
  "gpu_container_step c st =
     (case resources c of
        None \<Rightarrow> st
      | Some r \<Rightarrow>
          (let st1 = (case requests r of None \<Rightarrow> st | Some items \<Rightarrow> gpu_requests_loop items st)
           in case limits r of None \<Rightarrow> st1 | Some items \<Rightarrow> gpu_limits_loop items st1))"

fun gpu_containers_loop :: "container list \<Rightarrow> gpu_scan \<Rightarrow> gpu_scan" where
  "gpu_containers_loop [] st = st"
| "gpu_containers_loop (c # cs) st = gpu_containers_loop cs (gpu_container_step c st)"

definition gpu_scan_pod :: "pod \<Rightarrow> gpu_scan" where
  "gpu_scan_pod p =
     (case pod_containers p of
        None \<Rightarrow> ([], [], False)
      | Some cs \<Rightarrow> gpu_containers_loop cs ([], [], False))"

definition gpu_workload_of :: "pod \<Rightarrow> gpu_workload" where
  "gpu_workload_of p =
     \<lparr> gw_name = pod_name p,
       gw_namespace = pod_namespace p,
       gw_status = pod_phase p,
       gw_node = pod_node_name p,
       gw_gpu_requests = fst (gpu_scan_pod p),
       gw_gpu_limits = fst (snd (gpu_scan_pod p)),
       gw_created = pod_creation_timestamp p \<rparr>"

fun gpu_workloads_loop :: "pod list \<Rightarrow> gpu_workload list \<Rightarrow> gpu_workload list" where
  "gpu_workloads_loop [] gpu_workloads = gpu_workloads"
| "gpu_workloads_loop (p # ps) gpu_workloads =
     gpu_workloads_loop ps
       (if snd (snd (gpu_scan_pod p)) then gpu_workloads @ [gpu_workload_of p]
        else gpu_workloads)"

definition get_gpu_workloads ::
  "'a gateway_scheme \<Rightarrow> string \<Rightarrow> gpu_workload list tool_output" where
  "get_gpu_workloads g project =
     (if \<not> is_available g then Text ''OpenShift API not available''
      else case (if project = ''all'' then list_pod_for_all_namespaces g
                 else list_namespaced_pod g (Some project)) of
             Inl e \<Rightarrow> Text (''Error getting GPU workloads: '' @ e)
           | Inr pods \<Rightarrow> Json (gpu_workloads_loop pods []))"

section \<open>get_bluefield_dpu_nodes and get_bluefield_dpu_workloads\<close>

record dpu_node_info =
  dn_name :: string
  dn_labels :: "(string \<times> string) list option"
  dn_annotations :: "(string \<times> string) list option"
  dn_taints :: "taint list"
  dn_dpu_resources :: "(string \<times> string) list"
  dn_bluefield_labels :: "(string \<times> string) list"
  dn_network_resources :: "(string \<times> string) list"
  dn_conditions :: "condition list"
  dn_dpu_info :: "(string \<times> string) list"

definition is_dpu_resource :: "string \<Rightarrow> bool" where
  "is_dpu_resource resource =
     (str_in ''nvidia.com/dpu'' resource \<or> str_in ''nvidia.com/bluefield'' resource \<or>
      str_in ''nvidia.com/sriov'' resource \<or> str_in ''mellanox.com'' resource)"

definition is_bluefield_label :: "string \<Rightarrow> bool" where
  "is_bluefield_label label =
     (str_in ''bluefield'' (lower label) \<or> str_in ''dpu'' (lower label) \<or>
      str_in ''mellanox'' (lower label) \<or> str_in ''connectx'' (lower label))"

definition is_network_resource :: "string \<Rightarrow> bool" where
  "is_network_resource resource =
     (str_in ''sriov'' (lower resource) \<or> str_in ''rdma'' (lower resource) \<or>
      str_in ''net'' (lower resource))"

definition is_dpu_annotation :: "string \<Rightarrow> bool" where
  "is_dpu_annotation annotation =
     (str_in ''dpu'' (lower annotation) \<or> str_in ''bluefield'' (lower annotation) \<or>
      str_in ''mellanox'' (lower annotation))"

definition dpu_node_info_of :: "node \<Rightarrow> dpu_node_info" where
  "dpu_node_info_of n =
     \<lparr> dn_name = node_name n,
       dn_labels = node_labels n,
       dn_annotations = node_annotations n,
       dn_taints = (case node_taints n of None \<Rightarrow> [] | Some ts \<Rightarrow> ts),
       dn_dpu_resources =
         (case node_allocatable n of
            None \<Rightarrow> [] | Some items \<Rightarrow> collect_items is_dpu_resource items []),
       dn_bluefield_labels =
         (case node_labels n of
            None \<Rightarrow> [] | Some items \<Rightarrow> collect_items is_bluefield_label items []),
       dn_network_resources =
         (case node_allocatable n of
            None \<Rightarrow> [] | Some items \<Rightarrow> collect_items is_network_resource items []),
       dn_conditions =
         (case node_conditions n of
            None \<Rightarrow> []
          | Some cs \<Rightarrow>
              filter (\<lambda>c. condition_type c \<in> set [''Ready'', ''NetworkUnavailable'', ''DPUReady''])
                cs),
       dn_dpu_info =
         (case node_annotations n of
            None \<Rightarrow> [] | Some items \<Rightarrow> collect_items is_dpu_annotation items []) \<rparr>"

fun dpu_nodes_loop :: "node list \<Rightarrow> dpu_node_info list \<Rightarrow> dpu_node_info list" where
  "dpu_nodes_loop [] bluefield_nodes = bluefield_nodes"
| "dpu_nodes_loop (n # ns) bluefield_nodes =
     dpu_nodes_loop ns
       (if dn_dpu_resources (dpu_node_info_of n) \<noteq> [] \<or>
           dn_bluefield_labels (dpu_node_info_of n) \<noteq> [] \<or>
           dn_network_resources (dpu_node_info_of n) \<noteq> []
        then bluefield_nodes @ [dpu_node_info_of n] else bluefield_nodes)"

definition get_bluefield_dpu_nodes :: "'a gateway_scheme \<Rightarrow> dpu_node_info list tool_output" where
  "get_bluefield_dpu_nodes g =
     (if \<not> is_available g then Text ''OpenShift API not available''
      else case list_node g of
             Inl e \<Rightarrow> Text (''Error getting BlueField DPU nodes: '' @ e)
           | Inr nodes \<Rightarrow> Json (dpu_nodes_loop nodes []))"

record dpu_scan =
  ds_name :: string
  ds_namespace :: string
  ds_status :: string
  ds_node :: "string option"
  ds_dpu_requests :: "(string \<times> string) list"
  ds_dpu_limits :: "(string \<times> string) list"
  ds_sriov_requests :: "(string \<times> string) list"
  ds_sriov_limits :: "(string \<times> string) list"
  ds_rdma_requests :: "(string \<times> string) list"
  ds_rdma_limits :: "(string \<times> string) list"
  ds_created :: string

text \<open>The state of the scan of one pod: \<open>pod_info\<close> and \<open>has_dpu\<close>.\<close>

fun dpu_requests_loop :: "(string \<times> string) list \<Rightarrow> dpu_scan \<times> bool \<Rightarrow> dpu_scan \<times> bool" where
  "dpu_requests_loop [] st = st"
| "dpu_requests_loop ((resource, quantity) # items) (pod_info, has_dpu) =
     dpu_requests_loop items
       (if str_in ''nvidia.com/dpu'' resource \<or> str_in ''nvidia.com/bluefield'' resource
        then (pod_info\<lparr>ds_dpu_requests := dict_set (ds_dpu_requests pod_info) resource quantity\<rparr>,
              True)
        else if str_in ''sriov'' (lower resource)
        then (pod_info\<lparr>ds_sriov_requests :=
                dict_set (ds_sriov_requests pod_info) resource quantity\<rparr>, True)
        else if str_in ''rdma'' (lower resource)
        then (pod_info\<lparr>ds_rdma_requests :=
                dict_set (ds_rdma_requests pod_info) resource quantity\<rparr>, True)
        else (pod_info, has_dpu))"

fun dpu_limits_loop :: "(string \<times> string) list \<Rightarrow> dpu_scan \<times> bool \<Rightarrow> dpu_scan \<times> bool" where
  "dpu_limits_loop [] st = st"
| "dpu_limits_loop ((resource, quantity) # items) (pod_info, has_dpu) =
     dpu_limits_loop items
       (if str_in ''nvidia.com/dpu'' resource \<or> str_in ''nvidia.com/bluefield'' resource
        then (pod_info\<lparr>ds_dpu_limits := dict_set (ds_dpu_limits pod_info) resource quantity\<rparr>,
              True)
        else if str_in ''sriov'' (lower resource)
        then (pod_info\<lparr>ds_sriov_limits :=
                dict_set (ds_sriov_limits pod_info) resource quantity\<rparr>, True)
        else if str_in ''rdma'' (lower resource)
        then (pod_info\<lparr>ds_rdma_limits :=
                dict_set (ds_rdma_limits pod_info) resource quantity\<rparr>, True)
        else (pod_info, has_dpu))"

definition dpu_container_step :: "container \<Rightarrow> dpu_scan \<times> bool \<Rightarrow> dpu_scan \<times> bool" where
  "dpu_container_step c st =
     (case resources c of
        None \<Rightarrow> st
      | Some r \<Rightarrow>
          (let st1 = (case requests r of None \<Rightarrow> st | Some items \<Rightarrow> dpu_requests_loop items st)
           in case limits r of None \<Rightarrow> st1 | Some items \<Rightarrow> dpu_limits_loop items st1))"

fun dpu_containers_loop :: "container list \<Rightarrow> dpu_scan \<times> bool \<Rightarrow> dpu_scan \<times> bool" where
  "dpu_containers_loop [] st = st"
| "dpu_containers_loop (c # cs) st = dpu_containers_loop cs (dpu_container_step c st)"

definition dpu_scan_pod :: "pod \<Rightarrow> dpu_scan \<times> bool" where
  "dpu_scan_pod p =
     (let pod_info =
        \<lparr> ds_name = pod_name p, ds_namespace = pod_namespace p, ds_status = pod_phase p,
          ds_node = pod_node_name p, ds_dpu_requests = [], ds_dpu_limits = [],
          ds_sriov_requests = [], ds_sriov_limits = [], ds_rdma_requests = [],
          ds_rdma_limits = [], ds_created = pod_creation_timestamp p \<rparr>
      in case pod_containers p of
           None \<Rightarrow> (pod_info, False)
         | Some cs \<Rightarrow> dpu_containers_loop cs (pod_info, False))"

fun dpu_workloads_loop :: "pod list \<Rightarrow> dpu_scan list \<Rightarrow> dpu_scan list" where
  "dpu_workloads_loop [] dpu_workloads = dpu_workloads"
| "dpu_workloads_loop (p # ps) dpu_workloads =
     dpu_workloads_loop ps
       (if snd (dpu_scan_pod p) then dpu_workloads @ [fst (dpu_scan_pod p)]
        else dpu_workloads)"

definition get_bluefield_dpu_workloads ::
  "'a gateway_scheme \<Rightarrow> string \<Rightarrow> dpu_scan list tool_output" where
  "get_bluefield_dpu_workloads g project =
     (if \<not> is_available g then Text ''OpenShift API not available''
      else case (if project = ''all'' then list_pod_for_all_namespaces g
                 else list_namespaced_pod g (Some project)) of
             Inl e \<Rightarrow> Text (''Error getting BlueField DPU workloads: '' @ e)
           | Inr pods \<Rightarrow> Json (dpu_workloads_loop pods []))"

section \<open>search_gpu_logs\<close>

text \<open>A search item with the \<open>"source_type"\<close> the caller adds to it.\<close>

type_synonym tagged_item = "search_item \<times> string"

definition tag_items :: "string \<Rightarrow> search_item list \<Rightarrow> tagged_item list" where
  "tag_items source_type items = map (\<lambda>item. (item, source_type)) items"

text \<open>
  One \<open>try: ... except: pass\<close> block of \<open>search_gpu_logs\<close>: search, decode, tag and
  append; any exception leaves the results as they are.
\<close>

definition tagged_search ::
  "'a gateway_scheme \<Rightarrow> string \<Rightarrow> string \<Rightarrow> string \<Rightarrow> int \<Rightarrow> string \<Rightarrow> tagged_item list
     \<Rightarrow> tagged_item list" where
  "tagged_search g query project log_type lines source_type gpu_results =
     (case json_loads (search_all_logs g query project log_type lines) of
        Inl e \<Rightarrow> gpu_results
      | Inr data \<Rightarrow> gpu_results @ tag_items source_type data)"

definition gpu_keywords :: "string list" where
  "gpu_keywords = [''gpu'', ''nvidia'', ''cuda'', ''dcgm'', ''mig'']"

definition search_gpu_logs ::
  "'a gateway_scheme \<Rightarrow> string \<Rightarrow> string \<Rightarrow> int \<Rightarrow> tagged_item list tool_output" where
  "search_gpu_logs g query log_type lines =
     (if \<not> is_available g then Text ''OpenShift API not available''
      else Json
        (let r1 = tagged_search g query ''nvidia-gpu-operator'' log_type lines
                    ''nvidia-gpu-operator'' [];
             r2 = tagged_search g query ''opendatahub'' log_type lines ''opendatahub'' r1
         in if list_ex (\<lambda>keyword. str_in (lower keyword) (lower query)) gpu_keywords
            then tagged_search g query ''all'' log_type
                   (lines div int (length gpu_keywords)) ''cluster-wide'' r2
            else r2))"

section \<open>The health reports\<close>

text \<open>A JSON value; a summary is a dictionary of such values.\<close>

datatype jval =
    JNull
  | JBool bool
  | JInt int
  | JStr string
  | JList "jval list"
  | JObj "(string \<times> jval) list"

definition bind_exn :: "exn + 'a \<Rightarrow> ('a \<Rightarrow> exn + 'b) \<Rightarrow> exn + 'b" where
  "bind_exn m f = (case m of Inl e \<Rightarrow> Inl e | Inr x \<Rightarrow> f x)"

text \<open>
  \<open>for operator in operators_data: if marker in operator.get("name", ""):
  status = operator; break\<close>. \<open>None\<close> is the empty dictionary the report starts with.
\<close>

fun find_operator :: "string \<Rightarrow> operator_entry list \<Rightarrow> operator_entry option" where
  "find_operator marker [] = None"
| "find_operator marker (operator # operators) =
     (if str_in marker (operator_get_name operator) then Some operator
      else find_operator marker operators)"

text \<open>\<open>operator_status.get("namespace", "nvidia-gpu-operator")\<close>; \<open>None\<close> is \<open>null\<close>.\<close>

fun operator_get_namespace :: "operator_entry \<Rightarrow> string \<Rightarrow> string option" where
  "operator_get_namespace (OLM x) dflt = Some (olm_namespace x)"
| "operator_get_namespace (Helm x) dflt = helm_namespace x"
| "operator_get_namespace (Custom x) dflt = Some (custom_namespace x)"
| "operator_get_namespace (Operator_error m) dflt = Some dflt"

text \<open>
  \<open>health_report["operator_status"].get("csv_info", {}).get("phase") == "Succeeded"\<close>:
  an OLM entry whose \<open>csv_info\<close> is \<open>null\<close> raises.
\<close>

fun operator_healthy :: "operator_entry option \<Rightarrow> exn + bool" where
  "operator_healthy None = Inr False"
| "operator_healthy (Some (OLM x)) =
     (case olm_csv_info x of
        None \<Rightarrow> Inl ''AttributeError: NoneType object has no attribute get''
      | Some ci \<Rightarrow> Inr (ci_phase ci = ''Succeeded''))"
| "operator_healthy (Some other) = Inr False"

record gpu_health_report =
  hr_operator_status :: "operator_entry option"
  hr_pods_status :: "pod_entry list"
  hr_recent_errors :: "search_item list"
  hr_gpu_nodes :: "gpu_node_info list"
  hr_driver_status :: "search_item list"
  hr_device_plugin_status :: "search_item list"
  hr_summary :: "(string \<times> jval) list"

definition gpu_summary ::
  "operator_entry option \<Rightarrow> bool \<Rightarrow> pod_entry list \<Rightarrow> gpu_node_info list \<Rightarrow> search_item list
     \<Rightarrow> string \<Rightarrow> (string \<times> jval) list" where
  "gpu_summary status healthy pods_status nodes recent_errors now =
     [(''operator_installed'', JBool (status \<noteq> None)),
      (''operator_healthy'', JBool healthy),
      (''total_pods'', JInt (int (length pods_status))),
      (''running_pods'',
         JInt (int (length (filter (\<lambda>p. entry_status p = ''Running'') pods_status)))),
      (''gpu_nodes_count'', JInt (int (length nodes))),
      (''recent_errors_count'', JInt (int (length recent_errors))),
      (''timestamp'', JStr now)]"

text \<open>
  The body of the \<open>try\<close> block of \<open>get_gpu_operator_health\<close>; \<open>now\<close> is
  \<open>datetime.now().isoformat()\<close>.
\<close>

definition gpu_health_try :: "'a gateway_scheme \<Rightarrow> string \<Rightarrow> exn + gpu_health_report" where
  "gpu_health_try g now =
     bind_exn (json_loads (get_nvidia_operators g ''all'')) (\<lambda>operators_data.
     let status = find_operator ''gpu-operator'' operators_data in
     bind_exn (case status of
                 None \<Rightarrow> Inr []
               | Some operator \<Rightarrow>
                   json_loads (get_operator_pods g ''gpu-operator''
                     (operator_get_namespace operator ''nvidia-gpu-operator''))) (\<lambda>pods_status.
     bind_exn (json_loads (search_all_logs g ''ERROR'' ''nvidia-gpu-operator'' ''all'' 50))
       (\<lambda>recent_errors.
     bind_exn (json_loads (get_gpu_nodes g)) (\<lambda>nodes.
     bind_exn (json_loads (search_all_logs g ''nvidia-driver'' ''nvidia-gpu-operator'' ''pod'' 20))
       (\<lambda>driver_status.
     bind_exn (json_loads (search_all_logs g ''device-plugin'' ''nvidia-gpu-operator'' ''pod'' 20))
       (\<lambda>device_plugin_status.
     bind_exn (operator_healthy status) (\<lambda>healthy.
     Inr \<lparr> hr_operator_status = status,
           hr_pods_status = pods_status,
           hr_recent_errors = recent_errors,
           hr_gpu_nodes = nodes,
           hr_driver_status = driver_status,
           hr_device_plugin_status = device_plugin_status,
           hr_summary = gpu_summary status healthy pods_status nodes recent_errors now \<rparr>)))))))"

definition get_gpu_operator_health ::
  "'a gateway_scheme \<Rightarrow> string \<Rightarrow> gpu_health_report tool_output" where
  "get_gpu_operator_health g now =
     (if \<not> is_available g then Text ''OpenShift API not available''
      else case gpu_health_try g now of
             Inl e \<Rightarrow> Text (''Error getting GPU operator health: '' @ e)
           | Inr health_report \<Rightarrow> Json health_report)"

record dpu_health_report =
  dr_network_operator_status :: "operator_entry option"
  dr_dpu_nodes :: "dpu_node_info list"
  dr_dpu_workloads :: "dpu_scan list"
  dr_recent_dpu_errors :: "tagged_item list"
  dr_ofed_driver_status :: "tagged_item list"
  dr_rdma_device_status :: "tagged_item list"
  dr_summary :: "(string \<times> jval) list"

definition dpu_summary ::
  "operator_entry option \<Rightarrow> dpu_node_info list \<Rightarrow> dpu_scan list \<Rightarrow> tagged_item list
     \<Rightarrow> (string \<times> jval) list" where
  "dpu_summary status nodes workloads recent_dpu_errors =
     [(''network_operator_installed'', JBool (status \<noteq> None)),
      (''dpu_nodes_count'', JInt (int (length nodes))),
      (''dpu_workloads_count'', JInt (int (length workloads))),
      (''recent_errors_count'', JInt (int (length recent_dpu_errors))),
      (''health_status'', JStr (if recent_dpu_errors = [] then ''healthy'' else ''degraded''))]"

definition dpu_health_try :: "'a gateway_scheme \<Rightarrow> exn + dpu_health_report" where
  "dpu_health_try g =
     bind_exn (json_loads (get_nvidia_operators g ''all'')) (\<lambda>operators_data.
     let status = find_operator ''network-operator'' operators_data in
     bind_exn (json_loads (get_bluefield_dpu_nodes g)) (\<lambda>nodes.
     bind_exn (json_loads (get_bluefield_dpu_workloads g ''all'')) (\<lambda>workloads.
     bind_exn (json_loads (search_gpu_logs g ''ERROR'' ''all'' 50)) (\<lambda>recent_dpu_errors.
     bind_exn (json_loads (search_gpu_logs g ''ofed'' ''all'' 20)) (\<lambda>ofed_driver_status.
     bind_exn (json_loads (search_gpu_logs g ''rdma'' ''all'' 20)) (\<lambda>rdma_device_status.
     Inr \<lparr> dr_network_operator_status = status,
           dr_dpu_nodes = nodes,
           dr_dpu_workloads = workloads,
           dr_recent_dpu_errors = recent_dpu_errors,
           dr_ofed_driver_status = ofed_driver_status,
           dr_rdma_device_status = rdma_device_status,
           dr_summary = dpu_summary status nodes workloads recent_dpu_errors \<rparr>))))))"

definition get_bluefield_dpu_health :: "'a gateway_scheme \<Rightarrow> dpu_health_report tool_output" where
  "get_bluefield_dpu_health g =
     (if \<not> is_available g then Text ''OpenShift API not available''
      else case dpu_health_try g of
             Inl e \<Rightarrow> Text (''Error getting BlueField DPU health: '' @ e)
           | Inr health_report \<Rightarrow> Json health_report)"

section \<open>The managed-cluster API (OCMManager)\<close>

text \<open>
  An HTTP response: what \<open>raise_for_status()\<close> raises (nothing on success) and what
  \<open>json()\<close> gives (it raises on a body that is not JSON).
\<close>

record http_response =
  raise_for_status :: "exn option"
  response_json :: "exn + jval"

text \<open>
  The environment of the OCM manager: the three credentials read at start-up, the
  transport, the API base, what the request header lookup of the non-stdio transports
  gives (it can raise), and the outcome of the two HTTP calls: the POST to the token
  URL with client id and refresh token, and the GET of a URL with a bearer token.
\<close>

record ocm_env =
  ocm_client_id :: "string option"
  ocm_offline_token :: "string option"
  ocm_access_token_url :: "string option"
  mcp_transport :: string
  ocm_api_base :: string
  header_offline_token :: "exn + string option"
  http_post :: "string option \<Rightarrow> string option \<Rightarrow> string option \<Rightarrow> exn + http_response"
  http_get :: "string \<Rightarrow> jval \<Rightarrow> exn + http_response"

text \<open>\<open>all([self.client_id, self.offline_token, self.access_token_url])\<close>\<close>

definition str_truthy :: "string option \<Rightarrow> bool" where
  "str_truthy s = (case s of None \<Rightarrow> False | Some v \<Rightarrow> v \<noteq> [])"

definition ocm_is_available :: "'a ocm_env_scheme \<Rightarrow> bool" where
  "ocm_is_available env =
     (str_truthy (ocm_client_id env) \<and> str_truthy (ocm_offline_token env) \<and>
      str_truthy (ocm_access_token_url env))"

text \<open>Python on JSON values: \<open>d.get(k, default)\<close>, truth, \<open>k in d\<close>, \<open>d[k]\<close>, iteration.\<close>

definition py_get :: "jval \<Rightarrow> string \<Rightarrow> jval \<Rightarrow> exn + jval" where
  "py_get d k dflt =
     (case d of
        JObj kvs \<Rightarrow> (case map_of kvs k of None \<Rightarrow> Inr dflt | Some v \<Rightarrow> Inr v)
      | _ \<Rightarrow> Inl ''AttributeError: object has no attribute get'')"

fun py_truthy :: "jval \<Rightarrow> bool" where
  "py_truthy JNull = False"
| "py_truthy (JBool b) = b"
| "py_truthy (JInt n) = (n \<noteq> 0)"
| "py_truthy (JStr s) = (s \<noteq> [])"
| "py_truthy (JList xs) = (xs \<noteq> [])"
| "py_truthy (JObj kvs) = (kvs \<noteq> [])"

fun py_contains :: "string \<Rightarrow> jval \<Rightarrow> exn + bool" where
  "py_contains k (JObj kvs) = Inr (map_of kvs k \<noteq> None)"
| "py_contains k (JList xs) = Inr (JStr k \<in> set xs)"
| "py_contains k (JStr s) = Inr (str_in k s)"
| "py_contains k other = Inl ''TypeError: argument is not iterable''"

fun py_getitem :: "jval \<Rightarrow> string \<Rightarrow> exn + jval" where
  "py_getitem (JObj kvs) k =
     (case map_of kvs k of None \<Rightarrow> Inl ''KeyError'' | Some v \<Rightarrow> Inr v)"
| "py_getitem other k = Inl ''TypeError: indices must be integers''"

fun py_iter :: "jval \<Rightarrow> exn + jval list" where
  "py_iter (JList xs) = Inr xs"
| "py_iter (JObj kvs) = Inr (map (\<lambda>kv. JStr (fst kv)) kvs)"
| "py_iter (JStr s) = Inr (map (\<lambda>c. JStr [c]) s)"
| "py_iter other = Inl ''TypeError: object is not iterable''"

fun map_exn :: "('a \<Rightarrow> exn + 'b) \<Rightarrow> 'a list \<Rightarrow> exn + 'b list" where
  "map_exn f [] = Inr []"
| "map_exn f (x # xs) =
     (case f x of
        Inl e \<Rightarrow> Inl e
      | Inr y \<Rightarrow> (case map_exn f xs of Inl e \<Rightarrow> Inl e | Inr ys \<Rightarrow> Inr (y # ys)))"

text \<open>
  The token exchange: POST, \<open>raise_for_status()\<close>, \<open>json()\<close>,
  \<open>.get("access_token")\<close>. \<open>JNull\<close> is Python's \<open>None\<close>.
\<close>

definition exchange_token :: "'a ocm_env_scheme \<Rightarrow> string option \<Rightarrow> exn + jval" where
  "exchange_token env offline_token =
     bind_exn (http_post env (ocm_access_token_url env) (ocm_client_id env) offline_token)
       (\<lambda>response.
     (case raise_for_status response of
        Some e \<Rightarrow> Inl e
      | None \<Rightarrow> bind_exn (response_json response) (\<lambda>body. py_get body ''access_token'' JNull)))"

text \<open>The authenticated GET: GET with the bearer token, \<open>raise_for_status()\<close>, \<open>json()\<close>.\<close>

definition authenticated_get :: "'a ocm_env_scheme \<Rightarrow> string \<Rightarrow> jval \<Rightarrow> exn + jval" where
  "authenticated_get env url token =
     bind_exn (http_get env url token) (\<lambda>response.
     (case raise_for_status response of
        Some e \<Rightarrow> Inl e
      | None \<Rightarrow> response_json response))"

text \<open>
  The offline token: the environment's under the stdio transport, the request header's
  otherwise. The header lookup stands before the \<open>try\<close>.
\<close>

definition offline_token_lookup :: "'a ocm_env_scheme \<Rightarrow> exn + string option" where
  "offline_token_lookup env =
     (if mcp_transport env = ''stdio'' then Inr (ocm_offline_token env)
      else header_offline_token env)"

text \<open>
  \<open>make_request\<close>: \<open>Inl\<close> is an exception that leaves the function, \<open>Inr JNull\<close> the
  return value \<open>None\<close>.
\<close>

definition make_request :: "'a ocm_env_scheme \<Rightarrow> string \<Rightarrow> exn + jval" where
  "make_request env url =
     (if \<not> ocm_is_available env then Inr JNull
      else bind_exn (offline_token_lookup env) (\<lambda>offline_token.
        (case bind_exn (exchange_token env offline_token) (authenticated_get env url) of
           Inl e \<Rightarrow> Inr JNull
         | Inr v \<Rightarrow> Inr v)))"

definition clusters_url :: "'a ocm_env_scheme \<Rightarrow> string" where
  "clusters_url env = ocm_api_base env @ ''/api/clusters_mgmt/v1/clusters''"

definition cluster_logs_url :: "'a ocm_env_scheme \<Rightarrow> string \<Rightarrow> string" where
  "cluster_logs_url env cluster_id =
     ocm_api_base env @ ''/api/service_logs/v1/clusters/cluster_logs?cluster_id='' @ cluster_id"

text \<open>\<open>cluster.get(outer, {}).get(inner, "N/A")\<close>\<close>

definition py_get_nested :: "jval \<Rightarrow> string \<Rightarrow> string \<Rightarrow> exn + jval" where
  "py_get_nested d outer inner =
     bind_exn (py_get d outer (JObj [])) (\<lambda>x. py_get x inner (JStr ''N/A''))"

definition cluster_entry :: "jval \<Rightarrow> exn + jval" where
  "cluster_entry cluster =
     bind_exn (py_get cluster ''name'' (JStr ''N/A'')) (\<lambda>name.
     bind_exn (py_get cluster ''id'' (JStr ''N/A'')) (\<lambda>ident.
     bind_exn (py_get_nested cluster ''api'' ''url'') (\<lambda>api_url.
     bind_exn (py_get_nested cluster ''console'' ''url'') (\<lambda>console_url.
     bind_exn (py_get cluster ''state'' (JStr ''N/A'')) (\<lambda>state.
     bind_exn (py_get cluster ''openshift_version'' (JStr ''N/A'')) (\<lambda>version.
     bind_exn (py_get_nested cluster ''product'' ''id'') (\<lambda>product.
     bind_exn (py_get_nested cluster ''cloud_provider'' ''id'') (\<lambda>cloud_provider.
     bind_exn (py_get_nested cluster ''region'' ''id'') (\<lambda>region.
     Inr (JObj [(''name'', name), (''id'', ident), (''api_url'', api_url),
                (''console_url'', console_url), (''state'', state),
                (''openshift_version'', version), (''product'', product),
                (''cloud_provider'', cloud_provider), (''region'', region)]))))))))))"

definition log_entry :: "jval \<Rightarrow> exn + jval" where
  "log_entry log =
     bind_exn (py_get log ''service_name'' (JStr ''N/A'')) (\<lambda>service_name.
     bind_exn (py_get log ''id'' (JStr ''N/A'')) (\<lambda>ident.
     bind_exn (py_get log ''description'' (JStr '''')) (\<lambda>description.
     bind_exn (py_get log ''timestamp'' (JStr ''N/A'')) (\<lambda>timestamp.
     bind_exn (py_get log ''severity'' (JStr ''N/A'')) (\<lambda>severity.
     bind_exn (py_get log ''summary'' (JStr '''')) (\<lambda>summary.
     Inr (JObj [(''service_name'', service_name), (''id'', ident),
                (''description'', description), (''timestamp'', timestamp),
                (''severity'', severity), (''summary'', summary)])))))))"

text \<open>
  What both callers do with the data of \<open>make_request\<close>:
  \<open>if not data or "items" not in data: return message\<close>, then one entry per item.
\<close>

definition items_or_message ::
  "string \<Rightarrow> (jval \<Rightarrow> exn + jval) \<Rightarrow> jval \<Rightarrow> exn + jval tool_output" where
  "items_or_message message entry data =
     (if \<not> py_truthy data then Inr (Text message)
      else bind_exn (py_contains ''items'' data) (\<lambda>has_items.
        if \<not> has_items then Inr (Text message)
        else bind_exn (py_getitem data ''items'') (\<lambda>items.
             bind_exn (py_iter items) (\<lambda>xs.
             bind_exn (map_exn entry xs) (\<lambda>entries. Inr (Json (JList entries)))))))"

definition ocm_get_clusters :: "'a ocm_env_scheme \<Rightarrow> exn + jval tool_output" where
  "ocm_get_clusters env =
     (if \<not> ocm_is_available env
      then Inr (Text
        ''OCM API not available. Set OCM_CLIENT_ID, OCM_OFFLINE_TOKEN, and ACCESS_TOKEN_URL.'')
      else bind_exn (make_request env (clusters_url env))
             (items_or_message ''No clusters found or invalid response.'' cluster_entry))"

definition ocm_get_cluster_logs :: "'a ocm_env_scheme \<Rightarrow> string \<Rightarrow> exn + jval tool_output" where
  "ocm_get_cluster_logs env cluster_id =
     (if \<not> ocm_is_available env then Inr (Text ''OCM API not available'')
      else bind_exn (make_request env (cluster_logs_url env cluster_id))
             (items_or_message ''No logs found or invalid response.'' log_entry))"

section \<open>Example clusters\<close>

text \<open>
  A cluster where every client is there, every list is empty and every fetch of a single
  object fails; the examples below change the calls they are about.
\<close>

definition quiet_cluster :: gateway where
  "quiet_cluster =
     \<lparr> v1_present = True,
       dynamic_client_present = True,
       csv_list = (\<lambda>project. Inr []),
       list_namespaced_deployment = (\<lambda>project. Inr []),
       list_namespaced_pod = (\<lambda>project. Inr []),
       list_pod_for_all_namespaces = Inr [],
       read_namespaced_pod_log = (\<lambda>name namespace n. Inl ''NotFound''),
       list_event_for_all_namespaces = Inr [],
       list_namespaced_event = (\<lambda>project. Inr []),
       build_list_all = Inr [],
       build_list = (\<lambda>project. Inr []),
       get_build_log = (\<lambda>name namespace. Inl ''NotFound''),
       list_node = Inr [],
       list_deployment_for_all_namespaces = Inr [],
       subscription_list_all = Inr [],
       subscription_list = (\<lambda>project. Inr []),
       get_csv = (\<lambda>name namespace. Inl ''NotFound''),
       helm_repo_list = Inr [] \<rparr>"

definition example_pod :: "string \<Rightarrow> owner_reference list option \<Rightarrow> pod" where
  "example_pod name owners =
     \<lparr> pod_name = name,
       pod_namespace = ''shop'',
       pod_owner_references = owners,
       pod_phase = ''Running'',
       pod_container_statuses = Some [True],
       pod_creation_timestamp = ''2024-05-01T10:00:00Z'',
       pod_node_name = Some ''worker-1'',
       pod_containers = None \<rparr>"

definition example_deployment :: "string \<Rightarrow> owner_reference list option \<Rightarrow> deployment" where
  "example_deployment name owners =
     \<lparr> deploy_name = name,
       deploy_namespace = ''shop'',
       deploy_owner_references = owners,
       deploy_labels = Some [],
       deploy_replicas = Some 1,
       deploy_ready_replicas = Some 1,
       deploy_images = Some [''registry.example/web:1''],
       deploy_creation_timestamp = ''2024-05-01T09:00:00Z'' \<rparr>"

definition example_csv :: "string \<Rightarrow> csv" where
  "example_csv name =
     \<lparr> csv_name = name,
       csv_display_name = ''Web'',
       csv_version = ''1.0.0'',
       csv_description = ''Web operator'',
       csv_phase = ''Succeeded'',
       csv_owned = None \<rparr>"

definition replica_set :: "string \<Rightarrow> owner_reference" where
  "replica_set name = \<lparr> owner_kind = ''ReplicaSet'', owner_name = name \<rparr>"

text \<open>
  A CSV \<open>web-operator.v1\<close> that owns no deployment, and two pods, one of them with
  \<open>web\<close> in its name up to case.
\<close>

definition cluster_no_owned_deployment :: gateway where
  "cluster_no_owned_deployment =
     quiet_cluster
       \<lparr> csv_list := (\<lambda>project. Inr [example_csv ''web-operator.v1'']),
         list_namespaced_deployment := (\<lambda>project. Inr [example_deployment ''db'' None]),
         list_namespaced_pod :=
           (\<lambda>project. Inr [example_pod ''Web-Server-1'' None, example_pod ''db-0'' None]) \<rparr>"

text \<open>The CSV lookup raises; the namespace has a pod named \<open>web-1\<close>.\<close>

definition cluster_csv_lookup_fails :: gateway where
  "cluster_csv_lookup_fails =
     quiet_cluster
       \<lparr> csv_list := (\<lambda>project. Inl ''503 Service Unavailable''),
         list_namespaced_pod := (\<lambda>project. Inr [example_pod ''web-1'' None]) \<rparr>"

text \<open>
  Two clusters with the same pod \<open>web-7f9c9-x2\<close>: in the first a CSV owns the deployment
  \<open>web\<close> whose replica set owns the pod, in the second there is no CSV at all.
\<close>

definition cluster_owner_chain :: gateway where
  "cluster_owner_chain =
     quiet_cluster
       \<lparr> csv_list := (\<lambda>project. Inr [example_csv ''web.v1'']),
         list_namespaced_deployment :=
           (\<lambda>project. Inr [example_deployment ''web''
              (Some [\<lparr> owner_kind = ''ClusterServiceVersion'', owner_name = ''web.v1'' \<rparr>])]),
         list_namespaced_pod :=
           (\<lambda>project. Inr [example_pod ''web-7f9c9-x2'' (Some [replica_set ''web-7f9c9''])]) \<rparr>"

definition cluster_name_only :: gateway where
  "cluster_name_only =
     quiet_cluster
       \<lparr> list_namespaced_pod :=
           (\<lambda>project. Inr [example_pod ''web-7f9c9-x2'' (Some [replica_set ''web-7f9c9''])]) \<rparr>"


text \<open>
  The tag of the specification's \<open>ResolvedPodSet\<close>: which of the two methods of
  \<open>get_operator_pods\<close> produced the pods of a call that returns a list.
\<close>

datatype resolution_method = Owner_chain | Name_heuristic | No_method

definition spec_resolution_method ::
  "'a gateway_scheme \<Rightarrow> string \<Rightarrow> string option \<Rightarrow> resolution_method option" where
  "spec_resolution_method g operator_name project =
     (case owner_chain_result g operator_name project of
        Inl e \<Rightarrow> None
      | Inr (p # ps) \<Rightarrow> Some Owner_chain
      | Inr [] \<Rightarrow>
          (case name_heuristic g operator_name project of
             Inl e \<Rightarrow> None
           | Inr (p # ps) \<Rightarrow> Some Name_heuristic
           | Inr [] \<Rightarrow> Some No_method))"

text \<open>
  Three pods and three builds; the log fetch of the second pod and of the second build
  raise. One event mentions an error.
\<close>

definition cluster_second_fetch_fails :: gateway where
  "cluster_second_fetch_fails =
     quiet_cluster
       \<lparr> list_namespaced_pod :=
           (\<lambda>project. Inr [example_pod ''api-1'' None, example_pod ''api-2'' None,
                           example_pod ''api-3'' None]),
         read_namespaced_pod_log :=
           (\<lambda>name namespace n.
              if name = ''api-2'' then Inl ''500 Internal Server Error''
              else Inr (''started'' @ [CHR 0x0A] @ ''ERROR in '' @ name @ [CHR 0x0A])),
         list_namespaced_event :=
           (\<lambda>project. Inr [\<lparr> event_namespace = ''shop'',
                              event_involved_object_name = ''api-2'',
                              event_message = ''Error: ImagePullBackOff'',
                              event_reason = ''Failed'',
                              event_type = ''Warning'',
                              event_last_timestamp = ''2024-05-01T10:05:00Z'' \<rparr>]),
         build_list :=
           (\<lambda>project. Inr [\<lparr> build_name = ''img-1'', build_namespace = ''shop'' \<rparr>,
                           \<lparr> build_name = ''img-2'', build_namespace = ''shop'' \<rparr>,
                           \<lparr> build_name = ''img-3'', build_namespace = ''shop'' \<rparr>]),
         get_build_log :=
           (\<lambda>name namespace.
              if name = ''img-2'' then Inl ''404 Not Found''
              else Inr (''error: step '' @ name @ '' failed'')) \<rparr>"

text \<open>
  A pod whose log has twenty lines; only the sixth line, fifteenth from the end,
  mentions an error. The cluster API returns the last \<open>n\<close> lines for \<open>tail_lines = n\<close>.
\<close>

definition twenty_line_log :: "string list" where
  "twenty_line_log =
     [''tick 01'', ''tick 02'', ''tick 03'', ''tick 04'', ''tick 05'', ''ERROR disk full'',
      ''tick 07'', ''tick 08'', ''tick 09'', ''tick 10'', ''tick 11'', ''tick 12'',
      ''tick 13'', ''tick 14'', ''tick 15'', ''tick 16'', ''tick 17'', ''tick 18'',
      ''tick 19'', ''tick 20'']"

definition cluster_twenty_line_log :: gateway where
  "cluster_twenty_line_log =
     quiet_cluster
       \<lparr> list_namespaced_pod := (\<lambda>project. Inr [example_pod ''api-1'' None]),
         read_namespaced_pod_log :=
           (\<lambda>name namespace n. Inr (log_text (tail_lines n twenty_line_log))) \<rparr>"

text \<open>
  Pods for \<open>get_gpu_workloads\<close>: \<open>trainer\<close> has two containers that both request
  \<open>nvidia.com/gpu\<close>, \<open>web\<close> asks for CPU only, \<open>shared\<close> has a limit on a key with
  \<open>GPU\<close> in capitals.
\<close>

definition gpu_example_pods :: "pod list" where
  "gpu_example_pods =
     [(example_pod ''trainer'' None)
        \<lparr> pod_containers :=
            Some [\<lparr> resources = Some
                     \<lparr> requests = Some [(''cpu'', ''2''), (''nvidia.com/gpu'', ''1'')],
                       limits = Some [(''nvidia.com/gpu'', ''1'')] \<rparr> \<rparr>,
                  \<lparr> resources = Some
                     \<lparr> requests = Some [(''nvidia.com/gpu'', ''2'')],
                       limits = None \<rparr> \<rparr>] \<rparr>,
      (example_pod ''web'' None)
        \<lparr> pod_containers :=
            Some [\<lparr> resources = Some
                     \<lparr> requests = Some [(''cpu'', ''1'')], limits = None \<rparr> \<rparr>] \<rparr>,
      (example_pod ''shared'' None)
        \<lparr> pod_containers :=
            Some [\<lparr> resources = Some
                     \<lparr> requests = None,
                       limits = Some [(''example.com/GPU-share'', ''4'')] \<rparr> \<rparr>] \<rparr>]"

definition cluster_gpu_workloads :: gateway where
  "cluster_gpu_workloads =
     quiet_cluster \<lparr> list_pod_for_all_namespaces := Inr gpu_example_pods \<rparr>"

text \<open>
  A node named \<open>gpu-node-1\<close> whose label \<open>accelerator\<close> has the value
  \<open>nvidia-tesla\<close>; no label key and no allocatable resource mentions a GPU.
\<close>

definition gpu_named_node :: node where
  "gpu_named_node =
     \<lparr> node_name = ''gpu-node-1'',
       node_labels = Some [(''accelerator'', ''nvidia-tesla'')],
       node_annotations = None,
       node_taints = None,
       node_allocatable = Some [(''cpu'', ''8''), (''memory'', ''32Gi'')],
       node_conditions = None \<rparr>"

definition cluster_gpu_named_node :: gateway where
  "cluster_gpu_named_node = quiet_cluster \<lparr> list_node := Inr [gpu_named_node] \<rparr>"

text \<open>
  A cluster without operators where a pod of the namespace \<open>nvidia-gpu-operator\<close> logs
  an error.
\<close>

definition cluster_driver_error :: gateway where
  "cluster_driver_error =
     quiet_cluster
       \<lparr> list_namespaced_pod :=
           (\<lambda>project. if project = Some ''nvidia-gpu-operator''
                      then Inr [example_pod ''driver-x1'' None] else Inr []),
         read_namespaced_pod_log :=
           (\<lambda>name namespace n. Inr (''ERROR: driver failed to load'' @ [CHR 0x0A])) \<rparr>"

text \<open>
  Two OCM environments with all credentials under the stdio transport: in the first
  the POST to the token URL raises, in the second the token exchange succeeds and the
  GET is answered with an error status.
\<close>

definition ocm_token_exchange_fails :: ocm_env where
  "ocm_token_exchange_fails =
     \<lparr> ocm_client_id = Some ''cloud-services'',
       ocm_offline_token = Some ''offline'',
       ocm_access_token_url = Some ''https://sso.example/token'',
       mcp_transport = ''stdio'',
       ocm_api_base = ''https://api.openshift.com'',
       header_offline_token = Inl ''LookupError'',
       http_post = (\<lambda>url client_id refresh_token. Inl ''ConnectError''),
       http_get = (\<lambda>url token.
          Inr \<lparr> raise_for_status = None,
                response_json = Inr (JObj [(''items'', JList [])]) \<rparr>) \<rparr>"

definition ocm_get_unauthorized :: ocm_env where
  "ocm_get_unauthorized =
     \<lparr> ocm_client_id = Some ''cloud-services'',
       ocm_offline_token = Some ''offline'',
       ocm_access_token_url = Some ''https://sso.example/token'',
       mcp_transport = ''stdio'',
       ocm_api_base = ''https://api.openshift.com'',
       header_offline_token = Inl ''LookupError'',
       http_post = (\<lambda>url client_id refresh_token.
          Inr \<lparr> raise_for_status = None,
                response_json = Inr (JObj [(''access_token'', JStr ''abc'')]) \<rparr>),
       http_get = (\<lambda>url token.
          Inr \<lparr> raise_for_status = Some ''401 Unauthorized'',
                response_json = Inr JNull \<rparr>) \<rparr>"

text \<open>
  The report of \<open>get_gpu_operator_health\<close> on the quiet cluster at a given time, and the
  report of \<open>get_bluefield_dpu_health\<close> on the cluster whose driver pod logs an error.
\<close>

definition quiet_gpu_report :: gpu_health_report where
  "quiet_gpu_report =
     \<lparr> hr_operator_status = None, hr_pods_status = [], hr_recent_errors = [],
       hr_gpu_nodes = [], hr_driver_status = [], hr_device_plugin_status = [],
       hr_summary =
         [(''operator_installed'', JBool False), (''operator_healthy'', JBool False),
          (''total_pods'', JInt 0), (''running_pods'', JInt 0),
          (''gpu_nodes_count'', JInt 0), (''recent_errors_count'', JInt 0),
          (''timestamp'', JStr ''2024-05-01T12:00:00'')] \<rparr>"

definition driver_error_dpu_report :: dpu_health_report where
  "driver_error_dpu_report =
     \<lparr> dr_network_operator_status = None, dr_dpu_nodes = [], dr_dpu_workloads = [],
       dr_recent_dpu_errors =
         [(Pod_log ''shop/driver-x1'' [''ERROR: driver failed to load''],
           ''nvidia-gpu-operator'')],
       dr_ofed_driver_status = [], dr_rdma_device_status = [],
       dr_summary =
         [(''network_operator_installed'', JBool False), (''dpu_nodes_count'', JInt 0),
          (''dpu_workloads_count'', JInt 0), (''recent_errors_count'', JInt 1),
          (''health_status'', JStr ''degraded'')] \<rparr>"

section \<open>Notions used to state the properties\<close>

text \<open>That \<open>sub\<close> occurs in \<open>s\<close>, as a statement about the two strings.\<close>

definition occurs_in :: "string \<Rightarrow> string \<Rightarrow> bool" where
  "occurs_in sub s = (\<exists>pre suf. s = pre @ sub @ suf)"

text \<open>The items of a dictionary that may be missing.\<close>

definition items_of :: "'a list option \<Rightarrow> 'a list" where
  "items_of d = (case d of None \<Rightarrow> [] | Some items \<Rightarrow> items)"

text \<open>
  The key tests of the tools, as statements about the key: a GPU resource key contains
  \<open>nvidia.com\<close>, or \<open>gpu\<close> up to case; an NVIDIA label key contains \<open>nvidia\<close> or
  \<open>gpu\<close> up to case.
\<close>

definition gpu_key :: "string \<Rightarrow> bool" where
  "gpu_key k = (occurs_in ''nvidia.com'' k \<or> occurs_in ''gpu'' (lower k))"

definition nvidia_label_key :: "string \<Rightarrow> bool" where
  "nvidia_label_key k = (occurs_in ''nvidia'' (lower k) \<or> occurs_in ''gpu'' (lower k))"

text \<open>
  The requests and the limits that the containers of a pod declare, container after
  container.
\<close>

definition container_requests :: "container \<Rightarrow> (string \<times> string) list" where
  "container_requests c = (case resources c of None \<Rightarrow> [] | Some r \<Rightarrow> items_of (requests r))"

definition container_limits :: "container \<Rightarrow> (string \<times> string) list" where
  "container_limits c = (case resources c of None \<Rightarrow> [] | Some r \<Rightarrow> items_of (limits r))"

definition pod_requests :: "pod \<Rightarrow> (string \<times> string) list" where
  "pod_requests p = concat (map container_requests (items_of (pod_containers p)))"

definition pod_limits :: "pod \<Rightarrow> (string \<times> string) list" where
  "pod_limits p = concat (map container_limits (items_of (pod_containers p)))"

text \<open>
  The classifier as the specification words it: a candidate with a name, labels,
  annotations and resource keys matches a taxonomy when any of the name, the label keys
  and values, the annotation keys and values or the resource keys contains any keyword
  of the taxonomy, up to case. The GPU taxonomy is the one the specification lists.
\<close>

record candidate =
  cand_name :: string
  cand_labels :: "(string \<times> string) list"
  cand_annotations :: "(string \<times> string) list"
  cand_resource_keys :: "string list"

definition spec_classify :: "candidate \<Rightarrow> string list \<Rightarrow> bool" where
  "spec_classify c taxonomy =
     list_ex (\<lambda>keyword.
        list_ex (\<lambda>field. str_in (lower keyword) (lower field))
          (cand_name c # map fst (cand_labels c) @ map snd (cand_labels c) @
           map fst (cand_annotations c) @ map snd (cand_annotations c) @
           cand_resource_keys c))
       taxonomy"

definition spec_gpu_taxonomy :: "string list" where
  "spec_gpu_taxonomy = [''nvidia.com'', ''gpu'', ''cuda'']"

definition node_candidate :: "node \<Rightarrow> candidate" where
  "node_candidate n =
     \<lparr> cand_name = node_name n,
       cand_labels = items_of (node_labels n),
       cand_annotations = items_of (node_annotations n),
       cand_resource_keys = map fst (items_of (node_allocatable n)) \<rparr>"

section \<open>Properties of the string operations\<close>

lemma startswith_iff: "startswith s p \<longleftrightarrow> (\<exists>t. s = p @ t)"
  by (induction s p rule: startswith.induct) auto

lemma startswith_prefix: "startswith s p \<longleftrightarrow> prefix p s"
  by (simp add: startswith_iff prefix_def)

lemma str_in_sublist: "str_in sub s \<longleftrightarrow> sublist sub s"
proof (induction s)
  case Nil
  then show ?case by auto
next
  case (Cons c cs)
  then show ?case
    by (simp add: startswith_prefix sublist_Cons_right)
qed

lemma str_in_iff: "str_in sub s \<longleftrightarrow> (\<exists>pre suf. s = pre @ sub @ suf)"
  by (simp add: str_in_sublist sublist_def)

lemmas string_eval = lower_def lower_char_def upper_lower_table_def

section \<open>Properties of get_operator_pods\<close>

lemma name_loop_eq:
  "name_loop operator_name ps acc =
     acc @ map pod_entry_of (filter (\<lambda>p. str_in (lower operator_name) (lower (pod_name p))) ps)"
  by (induction ps arbitrary: acc) simp_all







lemma get_operator_pods_fallback:
  assumes "is_available g"
    and "owner_chain_result g operator_name project = Inr []"
    and "list_namespaced_pod g project = Inr pods"
  shows "get_operator_pods g operator_name project =
           Json (map pod_entry_of
             (filter (\<lambda>p. str_in (lower operator_name) (lower (pod_name p))) pods))"
  using assms
  by (auto simp: get_operator_pods_def get_operator_pods_try_def owner_chain_result_def
      name_heuristic_def name_loop_eq split: sum.splits option.splits)

lemma available_no_owned_deployment: "is_available cluster_no_owned_deployment"
  by (simp add: is_available_def cluster_no_owned_deployment_def quiet_cluster_def)

lemma owner_chain_no_owned_deployment:
  "owner_chain_result cluster_no_owned_deployment ''web'' (Some ''shop'') = Inr []"
  by (simp add: owner_chain_result_def owner_chain_def cluster_no_owned_deployment_def
      quiet_cluster_def example_csv_def example_deployment_def example_pod_def)

lemma pods_no_owned_deployment:
  "list_namespaced_pod cluster_no_owned_deployment (Some ''shop'') =
     Inr [example_pod ''Web-Server-1'' None, example_pod ''db-0'' None]"
  by (simp add: cluster_no_owned_deployment_def)

lemma pod_entry_of_fields:
  "pod_entry_of =
     (\<lambda>p. \<lparr> entry_name = pod_name p,
             entry_namespace = pod_namespace p,
             entry_status = pod_phase p,
             entry_ready = (case pod_container_statuses p of
                              None \<Rightarrow> 0 | Some cs \<Rightarrow> length (filter (\<lambda>r. r) cs)),
             entry_containers = (case pod_container_statuses p of
                              None \<Rightarrow> 0 | Some cs \<Rightarrow> length cs),
             entry_created = pod_creation_timestamp p,
             entry_node = pod_node_name p \<rparr>)"
  by (rule ext) (simp add: pod_entry_of_def)

text \<open>
  C1. When the gateway is available, method 1 of \<open>get_operator_pods\<close> ends with no pod
  (no CSV matches, or the matching CSV's owner chain reaches no pod) and the pod list of
  the namespace is \<open>pods\<close>, the call returns, in the order of the list, one entry for
  each pod of \<open>pods\<close> whose lower-cased name contains the lower-cased operator name, and
  nothing else; the entry carries the pod's name, namespace, phase, ready and total
  container counts, creation time and node.
\<close>

theorem fallback_is_name_substring_match:
  assumes "is_available g"
    and "owner_chain_result g operator_name project = Inr []"
    and "list_namespaced_pod g project = Inr pods"
  shows "get_operator_pods g operator_name project =
           Json (map (\<lambda>p. \<lparr> entry_name = pod_name p,
                            entry_namespace = pod_namespace p,
                            entry_status = pod_phase p,
                            entry_ready = (case pod_container_statuses p of
                                             None \<Rightarrow> 0
                                           | Some cs \<Rightarrow> length (filter (\<lambda>r. r) cs)),
                            entry_containers = (case pod_container_statuses p of
                                             None \<Rightarrow> 0 | Some cs \<Rightarrow> length cs),
                            entry_created = pod_creation_timestamp p,
                            entry_node = pod_node_name p \<rparr>)
             (filter (\<lambda>p. \<exists>pre suf. lower (pod_name p) = pre @ lower operator_name @ suf)
                pods))"
  using get_operator_pods_fallback [OF assms]
  by (simp only: str_in_iff pod_entry_of_fields)

theorem fallback_is_name_substring_match_witness:
  "is_available cluster_no_owned_deployment \<and>
   owner_chain_result cluster_no_owned_deployment ''web'' (Some ''shop'') = Inr [] \<and>
   list_namespaced_pod cluster_no_owned_deployment (Some ''shop'') =
     Inr [example_pod ''Web-Server-1'' None, example_pod ''db-0'' None] \<and>
   get_operator_pods cluster_no_owned_deployment ''web'' (Some ''shop'') =
     Json [\<lparr> entry_name = ''Web-Server-1'', entry_namespace = ''shop'',
             entry_status = ''Running'', entry_ready = 1, entry_containers = 1,
             entry_created = ''2024-05-01T10:00:00Z'', entry_node = Some ''worker-1'' \<rparr>]"
  using fallback_is_name_substring_match
    [OF available_no_owned_deployment owner_chain_no_owned_deployment
        pods_no_owned_deployment, folded str_in_iff]
    available_no_owned_deployment owner_chain_no_owned_deployment pods_no_owned_deployment
  by (simp add: example_pod_def string_eval)

lemmas cluster_eval = quiet_cluster_def example_csv_def example_deployment_def example_pod_def
  replica_set_def is_available_def get_operator_pods_def get_operator_pods_try_def
  owner_chain_def name_heuristic_def owner_chain_result_def


text \<open>
  C3, as the specification states it, fails: on a cluster whose CSV lookup raises, the
  call returns the error message, although the name heuristic would have found a pod.
\<close>

theorem csv_lookup_error_not_swallowed:
  "get_operator_pods cluster_csv_lookup_fails ''web'' (Some ''shop'') =
     Text ''Error getting operator pods: 503 Service Unavailable'' \<and>
   name_heuristic cluster_csv_lookup_fails ''web'' (Some ''shop'') =
     Inr [pod_entry_of (example_pod ''web-1'' None)]"
  by (simp add: cluster_csv_lookup_fails_def cluster_eval string_eval)

text \<open>
  C3, amended. An exception of the CSV lookup is caught by the handler of
  \<open>get_operator_pods\<close> and returned as the message \<open>Error getting operator pods: e\<close>;
  the name heuristic is not tried. A gateway that is not available gives the message
  \<open>OpenShift API not available\<close> before any lookup.
\<close>

theorem csv_lookup_error_is_surfaced:
  assumes "csv_list g project = Inl e"
  shows "get_operator_pods g operator_name project =
           (if is_available g then Text (''Error getting operator pods: '' @ e)
            else Text ''OpenShift API not available'')"
  using assms
  by (simp add: get_operator_pods_def get_operator_pods_try_def owner_chain_result_def)

theorem csv_lookup_error_is_surfaced_witness:
  "csv_list cluster_csv_lookup_fails (Some ''shop'') = Inl ''503 Service Unavailable'' \<and>
   get_operator_pods cluster_csv_lookup_fails ''web'' (Some ''shop'') =
     Text ''Error getting operator pods: 503 Service Unavailable''"
proof -
  have h: "csv_list cluster_csv_lookup_fails (Some ''shop'') = Inl ''503 Service Unavailable''"
    by (simp add: cluster_csv_lookup_fails_def)
  have a: "is_available cluster_csv_lookup_fails"
    by (simp add: cluster_csv_lookup_fails_def quiet_cluster_def is_available_def)
  show ?thesis
    using csv_lookup_error_is_surfaced [OF h, of "''web''"] h a by simp
qed

text \<open>
  C8, as the specification states it, fails: the value returned carries no tag of the
  method. Two clusters give the same output for the same call, one through the owner
  chain and one through the name heuristic.
\<close>

theorem result_does_not_identify_method:
  "get_operator_pods cluster_owner_chain ''web'' (Some ''shop'') =
     get_operator_pods cluster_name_only ''web'' (Some ''shop'') \<and>
   spec_resolution_method cluster_owner_chain ''web'' (Some ''shop'') = Some Owner_chain \<and>
   spec_resolution_method cluster_name_only ''web'' (Some ''shop'') = Some Name_heuristic"
  by (simp add: cluster_owner_chain_def cluster_name_only_def spec_resolution_method_def
      cluster_eval string_eval)

text \<open>
  C8, amended. The result of \<open>get_operator_pods\<close> is the bare list of pod entries. When
  the gateway is available, method 1 ends with no pod, the pod listing succeeds and no
  pod name contains the operator name up to case, the call returns the empty list as
  its JSON result, not a message.
\<close>

theorem nothing_found_returns_empty_list:
  assumes "is_available g"
    and "owner_chain_result g operator_name project = Inr []"
    and "list_namespaced_pod g project = Inr pods"
    and "\<forall>p\<in>set pods. \<not> (\<exists>pre suf. lower (pod_name p) = pre @ lower operator_name @ suf)"
  shows "get_operator_pods g operator_name project = Json []"
proof -
  have "filter (\<lambda>p. str_in (lower operator_name) (lower (pod_name p))) pods = []"
    using assms(4) by (simp add: str_in_iff filter_empty_conv)
  then show ?thesis
    using get_operator_pods_fallback [OF assms(1-3)] by simp
qed

theorem nothing_found_returns_empty_list_witness:
  "get_operator_pods
     (quiet_cluster\<lparr>list_namespaced_pod := (\<lambda>project. Inr [example_pod ''db-0'' None])\<rparr>)
     ''web'' (Some ''shop'') = Json []"
proof -
  let ?g = "quiet_cluster\<lparr>list_namespaced_pod := (\<lambda>project. Inr [example_pod ''db-0'' None])\<rparr>"
  have a: "is_available ?g"
    by (simp add: quiet_cluster_def is_available_def)
  have b: "owner_chain_result ?g ''web'' (Some ''shop'') = Inr []"
    by (simp add: quiet_cluster_def owner_chain_result_def)
  have c: "list_namespaced_pod ?g (Some ''shop'') = Inr [example_pod ''db-0'' None]"
    by simp
  have d: "\<forall>p\<in>set [example_pod ''db-0'' None].
             \<not> (\<exists>pre suf. lower (pod_name p) = pre @ lower ''web'' @ suf)"
    unfolding str_in_iff [symmetric] by (simp add: example_pod_def string_eval)
  show ?thesis
    using nothing_found_returns_empty_list [OF a b c d] .
qed

section \<open>Properties of search_all_logs\<close>

lemma pod_log_loop_append:
  "pod_log_loop g query lines (ps @ qs) results =
     pod_log_loop g query lines qs (pod_log_loop g query lines ps results)"
  by (induction ps arbitrary: results) simp_all

lemma pod_log_loop_prepend:
  "pod_log_loop g query lines ps (a @ b) = a @ pod_log_loop g query lines ps b"
  by (induction ps arbitrary: b) (simp_all split: sum.splits)

lemma pod_log_loop_acc:
  "pod_log_loop g query lines ps results = results @ pod_log_loop g query lines ps []"
  using pod_log_loop_prepend [of g query lines ps results "[]"] by simp

lemma build_log_loop_append:
  "build_log_loop g query (bs @ cs) results =
     build_log_loop g query cs (build_log_loop g query bs results)"
  by (induction bs arbitrary: results) simp_all

lemma build_log_loop_prepend:
  "build_log_loop g query bs (a @ b) = a @ build_log_loop g query bs b"
  by (induction bs arbitrary: b) (simp_all split: sum.splits)

lemma build_log_loop_acc:
  "build_log_loop g query bs results = results @ build_log_loop g query bs []"
  using build_log_loop_prepend [of g query bs results "[]"] by simp

lemma event_loop_prepend:
  "event_loop query evs (a @ b) = a @ event_loop query evs b"
  by (induction evs arbitrary: b) (simp_all split: sum.splits)

lemma event_loop_acc:
  "event_loop query evs results = results @ event_loop query evs []"
  using event_loop_prepend [of query evs results "[]"] by simp

lemma search_events_acc:
  "search_events g query project resource_types results =
     results @ search_events g query project resource_types []"
  using event_loop_acc [of query _ results]
  by (simp add: search_events_def split: sum.splits)

lemma search_build_logs_acc:
  "search_build_logs g query project resource_types results =
     results @ search_build_logs g query project resource_types []"
  using build_log_loop_acc [of g query _ results]
  by (simp add: search_build_logs_def split: sum.splits)

lemma search_all_logs_sources:
  "is_available g \<Longrightarrow>
   search_all_logs g query project resource_types lines =
     Json (search_pod_logs g query project resource_types lines [] @
           search_events g query project resource_types [] @
           search_build_logs g query project resource_types [])"
  using search_build_logs_acc [of g query project resource_types
          "search_events g query project resource_types
             (search_pod_logs g query project resource_types lines [])"]
        search_events_acc [of g query project resource_types
          "search_pod_logs g query project resource_types lines []"]
  by (simp add: search_all_logs_def)

lemma pod_log_loop_skip:
  assumes "read_namespaced_pod_log g (pod_name p) (pod_namespace p) lines = Inl e"
  shows "pod_log_loop g query lines (ps1 @ p # ps2) [] =
           pod_log_loop g query lines ps1 [] @ pod_log_loop g query lines ps2 []"
  using assms pod_log_loop_acc [of g query lines ps2 "pod_log_loop g query lines ps1 []"]
  by (simp add: pod_log_loop_append)

lemma build_log_loop_skip:
  assumes "get_build_log g (build_name b) (build_namespace b) = Inl e"
  shows "build_log_loop g query (bs1 @ b # bs2) [] =
           build_log_loop g query bs1 [] @ build_log_loop g query bs2 []"
  using assms build_log_loop_acc [of g query bs2 "build_log_loop g query bs1 []"]
  by (simp add: build_log_loop_append)

text \<open>
  C4. On an available gateway, when the log fetch of one pod among the first twenty of
  the listing raises, \<open>search_all_logs\<close> returns the hits of the pods before it, then
  the hits of the pods after it, then what the event and the build sources give; the
  same holds for a build among the first ten whose log fetch raises. The result is a
  JSON list in both cases, never a message.
\<close>

theorem failed_fetch_skips_only_that_item:
  assumes "is_available g"
  shows "((resource_types = ''all'' \<or> resource_types = ''pod'') \<and>
          (if project = ''all'' then list_pod_for_all_namespaces g
           else list_namespaced_pod g (Some project)) = Inr pods \<and>
          take 20 pods = earlier @ p # later \<and>
          read_namespaced_pod_log g (pod_name p) (pod_namespace p) lines = Inl e
          \<longrightarrow> search_all_logs g query project resource_types lines =
                Json (pod_log_loop g query lines earlier [] @ pod_log_loop g query lines later [] @
                      search_events g query project resource_types [] @
                      search_build_logs g query project resource_types []))
       \<and> ((resource_types = ''all'' \<or> resource_types = ''build'') \<and>
          (if project = ''all'' then build_list_all g else build_list g project) = Inr builds \<and>
          take 10 builds = earlier_builds @ b # later_builds \<and>
          get_build_log g (build_name b) (build_namespace b) = Inl eb
          \<longrightarrow> search_all_logs g query project resource_types lines =
                Json (search_pod_logs g query project resource_types lines [] @
                      search_events g query project resource_types [] @
                      build_log_loop g query earlier_builds [] @ build_log_loop g query later_builds []))"
proof (intro conjI impI)
  assume h: "(resource_types = ''all'' \<or> resource_types = ''pod'') \<and>
          (if project = ''all'' then list_pod_for_all_namespaces g
           else list_namespaced_pod g (Some project)) = Inr pods \<and>
          take 20 pods = earlier @ p # later \<and>
          read_namespaced_pod_log g (pod_name p) (pod_namespace p) lines = Inl e"
  then have "search_pod_logs g query project resource_types lines [] =
               pod_log_loop g query lines earlier [] @ pod_log_loop g query lines later []"
    using pod_log_loop_skip [of g p lines e query earlier later]
    by (auto simp: search_pod_logs_def)
  then show "search_all_logs g query project resource_types lines =
                Json (pod_log_loop g query lines earlier [] @ pod_log_loop g query lines later [] @
                      search_events g query project resource_types [] @
                      search_build_logs g query project resource_types [])"
    by (simp add: search_all_logs_sources [OF assms])
next
  assume h: "(resource_types = ''all'' \<or> resource_types = ''build'') \<and>
          (if project = ''all'' then build_list_all g else build_list g project) = Inr builds \<and>
          take 10 builds = earlier_builds @ b # later_builds \<and>
          get_build_log g (build_name b) (build_namespace b) = Inl eb"
  then have "search_build_logs g query project resource_types [] =
               build_log_loop g query earlier_builds [] @ build_log_loop g query later_builds []"
    using build_log_loop_skip [of g b eb query earlier_builds later_builds]
    by (auto simp: search_build_logs_def)
  then show "search_all_logs g query project resource_types lines =
                Json (search_pod_logs g query project resource_types lines [] @
                      search_events g query project resource_types [] @
                      build_log_loop g query earlier_builds [] @ build_log_loop g query later_builds [])"
    by (simp add: search_all_logs_sources [OF assms])
qed

lemma available_second_fetch_fails: "is_available cluster_second_fetch_fails"
  by (simp add: cluster_second_fetch_fails_def quiet_cluster_def is_available_def)

theorem failed_fetch_skips_only_that_item_witness:
  "search_all_logs cluster_second_fetch_fails ''error'' ''shop'' ''all'' 50 =
     Json [Pod_log ''shop/api-1'' [''ERROR in api-1''],
           Pod_log ''shop/api-3'' [''ERROR in api-3''],
           Event_hit ''shop/api-2'' ''Error: ImagePullBackOff'' ''Failed'' ''Warning''
             ''2024-05-01T10:05:00Z'',
           Build_log ''shop/img-1'' [''error: step img-1 failed''],
           Build_log ''shop/img-3'' [''error: step img-3 failed'']]"
proof -
  let ?g = cluster_second_fetch_fails
  let ?p1 = "example_pod ''api-1'' None"
  let ?p2 = "example_pod ''api-2'' None"
  let ?p3 = "example_pod ''api-3'' None"
  let ?b1 = "\<lparr> build_name = ''img-1'', build_namespace = ''shop'' \<rparr>"
  let ?b2 = "\<lparr> build_name = ''img-2'', build_namespace = ''shop'' \<rparr>"
  let ?b3 = "\<lparr> build_name = ''img-3'', build_namespace = ''shop'' \<rparr>"
  have pods: "(if ''shop'' = ''all'' then list_pod_for_all_namespaces ?g
               else list_namespaced_pod ?g (Some ''shop'')) = Inr [?p1, ?p2, ?p3]"
    by (simp add: cluster_second_fetch_fails_def)
  have split: "take 20 [?p1, ?p2, ?p3] = [?p1] @ ?p2 # [?p3]"
    by simp
  have fails: "read_namespaced_pod_log ?g (pod_name ?p2) (pod_namespace ?p2) 50 =
               Inl ''500 Internal Server Error''"
    by (simp add: cluster_second_fetch_fails_def example_pod_def)
  have builds: "(if ''shop'' = ''all'' then build_list_all ?g else build_list ?g ''shop'') =
              Inr [?b1, ?b2, ?b3]"
    by (simp add: cluster_second_fetch_fails_def)
  have bsplit: "take 10 [?b1, ?b2, ?b3] = [?b1] @ ?b2 # [?b3]"
    by simp
  have bfails: "get_build_log ?g (build_name ?b2) (build_namespace ?b2) = Inl ''404 Not Found''"
    by (simp add: cluster_second_fetch_fails_def)
  note both = failed_fetch_skips_only_that_item [OF available_second_fetch_fails,
      where resource_types = "''all''" and project = "''shop''" and query = "''error''"
        and lines = 50 and pods = "[?p1, ?p2, ?p3]"
        and earlier = "[?p1]" and p = ?p2 and later = "[?p3]"
        and e = "''500 Internal Server Error''"
        and builds = "[?b1, ?b2, ?b3]"
        and earlier_builds = "[?b1]" and b = ?b2 and later_builds = "[?b3]"
        and eb = "''404 Not Found''"]
  have by_pods: "search_all_logs ?g ''error'' ''shop'' ''all'' 50 =
          Json (pod_log_loop ?g ''error'' 50 [?p1] [] @
                pod_log_loop ?g ''error'' 50 [?p3] [] @
                search_events ?g ''error'' ''shop'' ''all'' [] @
                search_build_logs ?g ''error'' ''shop'' ''all'' [])"
    by (rule both [THEN conjunct1, THEN mp])
       (intro conjI disjI1 refl pods split fails)
  have by_builds: "search_all_logs ?g ''error'' ''shop'' ''all'' 50 =
          Json (search_pod_logs ?g ''error'' ''shop'' ''all'' 50 [] @
                search_events ?g ''error'' ''shop'' ''all'' [] @
                build_log_loop ?g ''error'' [?b1] [] @
                build_log_loop ?g ''error'' [?b3] [])"
    by (rule both [THEN conjunct2, THEN mp])
       (intro conjI disjI1 refl builds bsplit bfails)
  have remaining_pods: "pod_log_loop ?g ''error'' 50 [?p1] [] @
                pod_log_loop ?g ''error'' 50 [?p3] [] @
                search_events ?g ''error'' ''shop'' ''all'' [] @
                search_build_logs ?g ''error'' ''shop'' ''all'' [] =
          [Pod_log ''shop/api-1'' [''ERROR in api-1''],
           Pod_log ''shop/api-3'' [''ERROR in api-3''],
           Event_hit ''shop/api-2'' ''Error: ImagePullBackOff'' ''Failed'' ''Warning''
             ''2024-05-01T10:05:00Z'',
           Build_log ''shop/img-1'' [''error: step img-1 failed''],
           Build_log ''shop/img-3'' [''error: step img-3 failed'']]"
    by code_simp
  have remaining_builds: "search_pod_logs ?g ''error'' ''shop'' ''all'' 50 [] @
                search_events ?g ''error'' ''shop'' ''all'' [] @
                build_log_loop ?g ''error'' [?b1] [] @
                build_log_loop ?g ''error'' [?b3] [] =
          [Pod_log ''shop/api-1'' [''ERROR in api-1''],
           Pod_log ''shop/api-3'' [''ERROR in api-3''],
           Event_hit ''shop/api-2'' ''Error: ImagePullBackOff'' ''Failed'' ''Warning''
             ''2024-05-01T10:05:00Z'',
           Build_log ''shop/img-1'' [''error: step img-1 failed''],
           Build_log ''shop/img-3'' [''error: step img-3 failed'']]"
    by code_simp
  from by_pods by_builds show ?thesis
    by (simp only: remaining_pods remaining_builds)
qed

lemma lower_char_newline: "lower_char c = CHR 0x0A \<longleftrightarrow> c = CHR 0x0A"
proof (cases "map_of upper_lower_table c")
  case None
  then show ?thesis by (simp add: lower_char_def)
next
  case (Some l)
  then have "(c, l) \<in> set upper_lower_table"
    by (rule map_of_SomeD)
  then have "c \<noteq> CHR 0x0A \<and> l \<noteq> CHR 0x0A"
    by (auto simp: upper_lower_table_def)
  then show ?thesis
    using Some by (simp add: lower_char_def)
qed

lemma newline_lower_char: "CHR 0x0A = lower_char c \<longleftrightarrow> c = CHR 0x0A"
  using lower_char_newline [of c] by auto

lemma newline_in_lower: "CHR 0x0A \<in> set (lower s) \<longleftrightarrow> CHR 0x0A \<in> set s"
  by (induction s) (auto simp: lower_def lower_char_newline newline_lower_char)

lemma lower_log_text: "lower (log_text ls) = log_text (map lower ls)"
  by (induction ls) (simp_all add: log_text_def lower_def lower_char_newline [THEN iffD2])

lemma sublist_line_or_rest:
  assumes "q \<noteq> []" and "CHR 0x0A \<notin> set q"
  shows "sublist q (l @ CHR 0x0A # rest) \<longleftrightarrow> sublist q l \<or> sublist q rest"
proof -
  have no_prefix: "\<not> prefix q (CHR 0x0A # rest)"
    using assms by (auto simp: prefix_Cons)
  have split: "sublist q l" if "q = xs1 @ xs2" "suffix xs1 l" "prefix xs2 (CHR 0x0A # rest)"
    for xs1 xs2
  proof -
    have "xs2 = []"
      using that(1,3) assms(2) by (auto simp: prefix_Cons)
    then show ?thesis
      using that(1,2) by simp
  qed
  show ?thesis
    using no_prefix split
    by (auto simp: sublist_append sublist_Cons_right)
qed

lemma sublist_log_text:
  assumes "q \<noteq> []" and "CHR 0x0A \<notin> set q"
  shows "sublist q (log_text ls) \<longleftrightarrow> (\<exists>l\<in>set ls. sublist q l)"
proof (induction ls)
  case Nil
  then show ?case using assms(1) by (simp add: log_text_def)
next
  case (Cons l ls)
  have "log_text (l # ls) = l @ CHR 0x0A # log_text ls"
    by (simp add: log_text_def)
  then show ?case
    using sublist_line_or_rest [OF assms, of l "log_text ls"] Cons.IH by auto
qed

lemma split_nl_acc_line:
  "CHR 0x0A \<notin> set l \<Longrightarrow>
   split_nl_acc cur (l @ CHR 0x0A # rest) = (cur @ l) # split_nl_acc [] rest"
  by (induction l arbitrary: cur) auto

lemma split_nl_log_text:
  "\<forall>l\<in>set ls. CHR 0x0A \<notin> set l \<Longrightarrow> split_nl (log_text ls) = ls @ [[]]"
proof (induction ls)
  case Nil
  then show ?case by (simp add: split_nl_def log_text_def)
next
  case (Cons l ls)
  have "log_text (l # ls) = l @ CHR 0x0A # log_text ls"
    by (simp add: log_text_def)
  then show ?case
    using Cons split_nl_acc_line [of l "[]" "log_text ls"]
    by (simp add: split_nl_def)
qed

lemma lower_eq_Nil: "lower s = [] \<longleftrightarrow> s = []"
  by (simp add: lower_def)

lemma pod_log_loop_tail:
  assumes "read_namespaced_pod_log g (pod_name p) (pod_namespace p) lines =
             Inr (log_text (tail_lines lines full_log))"
    and "query \<noteq> []" and "CHR 0x0A \<notin> set query"
    and "\<forall>l\<in>set full_log. CHR 0x0A \<notin> set l"
  shows "pod_log_loop g query lines [p] results =
    (if \<exists>l\<in>set (tail_lines lines full_log). str_in (lower query) (lower l)
     then results @
       [Pod_log (pod_namespace p @ ''/'' @ pod_name p)
          (take 5 (filter (\<lambda>l. str_in (lower query) (lower l)) (tail_lines lines full_log)))]
     else results)"
proof -
  let ?T = "tail_lines lines full_log"
  have q: "lower query \<noteq> []" "CHR 0x0A \<notin> set (lower query)"
    using assms(2,3) by (simp_all add: lower_eq_Nil newline_in_lower)
  have "set ?T \<subseteq> set full_log"
    by (simp add: tail_lines_def set_drop_subset)
  then have clean: "\<forall>l\<in>set ?T. CHR 0x0A \<notin> set l"
    using assms(4) by blast
  have hit: "str_in (lower query) (lower (log_text ?T)) \<longleftrightarrow>
               (\<exists>l\<in>set ?T. str_in (lower query) (lower l))"
    using sublist_log_text [OF q, of "map lower ?T"]
    by (simp add: str_in_sublist lower_log_text)
  have "\<not> str_in (lower query) (lower [])"
    using q(1) by (simp add: lower_def)
  then have matches: "filter (\<lambda>l. str_in (lower query) (lower l)) (split_nl (log_text ?T)) =
                  filter (\<lambda>l. str_in (lower query) (lower l)) ?T"
    by (simp add: split_nl_log_text [OF clean])
  show ?thesis
    using assms(1) hit matches by simp
qed

text \<open>
  C5. When the gateway answers the log fetch of a pod with the last \<open>lines\<close> lines of
  the pod's log, the query is not empty and has no newline, and no log line has one,
  the pod gets a hit exactly when one of these last lines contains the query up to
  case, and the matches of the hit are the first five such lines: lines before the
  tail play no part. With twenty lines of which only the fifteenth from the end
  matches, \<open>lines = 10\<close> gives no hit.
\<close>

theorem search_sees_only_the_tail:
  assumes "read_namespaced_pod_log g (pod_name p) (pod_namespace p) lines =
             Inr (log_text (tail_lines lines full_log))"
    and "query \<noteq> []" and "CHR 0x0A \<notin> set query"
    and "\<forall>l\<in>set full_log. CHR 0x0A \<notin> set l"
  shows "pod_log_loop g query lines [p] results =
    (if \<exists>l\<in>set (tail_lines lines full_log). \<exists>pre suf. lower l = pre @ lower query @ suf
     then results @
       [Pod_log (pod_namespace p @ ''/'' @ pod_name p)
          (take 5 (filter (\<lambda>l. \<exists>pre suf. lower l = pre @ lower query @ suf)
             (tail_lines lines full_log)))]
     else results)"
  using pod_log_loop_tail [OF assms] by (simp only: str_in_iff)

theorem search_sees_only_the_tail_witness:
  "search_all_logs cluster_twenty_line_log ''error'' ''shop'' ''pod'' 10 = Json [] \<and>
   search_all_logs cluster_twenty_line_log ''error'' ''shop'' ''pod'' 20 =
     Json [Pod_log ''shop/api-1'' [''ERROR disk full'']]"
proof -
  let ?g = cluster_twenty_line_log
  let ?p = "example_pod ''api-1'' None"
  have fetch: "read_namespaced_pod_log ?g (pod_name ?p) (pod_namespace ?p) n =
                 Inr (log_text (tail_lines n twenty_line_log))" for n
    by (simp add: cluster_twenty_line_log_def)
  have q: "''error'' \<noteq> []" "CHR 0x0A \<notin> set ''error''"
    by simp_all
  have clean: "\<forall>l\<in>set twenty_line_log. CHR 0x0A \<notin> set l"
    by code_simp
  have ten: "pod_log_loop ?g ''error'' 10 [?p] [] = []"
    using search_sees_only_the_tail [OF fetch q clean, of 10 "[]", folded str_in_iff] by code_simp
  have twenty: "pod_log_loop ?g ''error'' 20 [?p] [] = [Pod_log ''shop/api-1'' [''ERROR disk full'']]"
    using search_sees_only_the_tail [OF fetch q clean, of 20 "[]", folded str_in_iff] by code_simp
  have "search_all_logs ?g ''error'' ''shop'' ''pod'' n =
          Json (pod_log_loop ?g ''error'' n [?p] [])" for n
    by (simp add: search_all_logs_def search_pod_logs_def search_events_def
        search_build_logs_def cluster_twenty_line_log_def quiet_cluster_def is_available_def)
  then show ?thesis
    using ten twenty by simp
qed

section \<open>Properties of the GPU tools\<close>

lemma str_in_occurs: "str_in sub s \<longleftrightarrow> occurs_in sub s"
  by (simp add: str_in_iff occurs_in_def)

lemma collect_items_append:
  "collect_items test (xs @ ys) d = collect_items test ys (collect_items test xs d)"
  by (induction test xs d rule: collect_items.induct) simp_all

lemma map_of_dict_set: "map_of (dict_set d k v) = (map_of d)(k \<mapsto> v)"
  by (simp add: dict_set_def update_conv')

lemma map_of_collect_items:
  "map_of (collect_items test items d) =
     map_of d ++ map_of (rev (filter (\<lambda>kv. test (fst kv)) items))"
proof (induction items arbitrary: d)
  case Nil
  then show ?case by simp
next
  case (Cons kv items)
  obtain k v where kv: "kv = (k, v)"
    by (cases kv)
  show ?case
  proof (cases "test k")
    case True
    have step: "collect_items test (kv # items) d = collect_items test items (dict_set d k v)"
      using True by (simp add: kv)
    have "map_of (collect_items test (kv # items) d) =
            map_of (dict_set d k v) ++ map_of (rev (filter (\<lambda>kv. test (fst kv)) items))"
      by (simp only: step Cons.IH)
    also have "map_of (dict_set d k v) = (map_of d)(k \<mapsto> v)"
      by (rule map_of_dict_set)
    also have "(map_of d)(k \<mapsto> v) = map_of d ++ map_of [(k, v)]"
      by simp
    also have "(map_of d ++ map_of [(k, v)]) ++ map_of (rev (filter (\<lambda>kv. test (fst kv)) items)) =
               map_of d ++ map_of (rev (filter (\<lambda>kv. test (fst kv)) items) @ [(k, v)])"
      by (simp only: map_of_append map_add_assoc)
    finally show ?thesis
      using True by (simp add: kv)
  next
    case False
    then show ?thesis by (simp add: kv Cons.IH)
  qed
qed

lemma keys_dict_set: "fst ` set (dict_set d k v) = insert k (fst ` set d)"
  by (simp add: dict_set_def dom_update)

lemma keys_collect_items:
  "fst ` set (collect_items test items d) =
     fst ` set d \<union> {k \<in> fst ` set items. test k}"
  by (induction test items d rule: collect_items.induct) (auto simp: keys_dict_set)

lemma collect_items_empty:
  "collect_items test items [] = [] \<longleftrightarrow> \<not> (\<exists>k\<in>fst ` set items. test k)"
proof -
  have "collect_items test items [] = [] \<longleftrightarrow> fst ` set (collect_items test items []) = {}"
    by simp
  also have "\<dots> \<longleftrightarrow> \<not> (\<exists>k\<in>fst ` set items. test k)"
    by (auto simp: keys_collect_items)
  finally show ?thesis .
qed

lemma gpu_requests_loop_eq:
  "gpu_requests_loop items (reqs, lims, has_gpu) =
     (collect_items is_gpu_resource items reqs, lims,
      has_gpu \<or> (\<exists>k\<in>fst ` set items. is_gpu_resource k))"
  by (induction items arbitrary: reqs has_gpu) auto

lemma gpu_limits_loop_eq:
  "gpu_limits_loop items (reqs, lims, has_gpu) =
     (reqs, collect_items is_gpu_resource items lims,
      has_gpu \<or> (\<exists>k\<in>fst ` set items. is_gpu_resource k))"
  by (induction items arbitrary: lims has_gpu) auto

lemma gpu_container_step_eq:
  "gpu_container_step c (reqs, lims, has_gpu) =
     (collect_items is_gpu_resource (container_requests c) reqs,
      collect_items is_gpu_resource (container_limits c) lims,
      has_gpu \<or> (\<exists>k\<in>fst ` set (container_requests c @ container_limits c). is_gpu_resource k))"
proof (cases "resources c")
  case None
  then show ?thesis
    by (simp add: gpu_container_step_def container_requests_def container_limits_def)
next
  case (Some r)
  then show ?thesis
    by (cases "requests r"; cases "limits r")
       (simp_all add: gpu_container_step_def container_requests_def container_limits_def
          items_of_def gpu_requests_loop_eq gpu_limits_loop_eq image_Un bex_Un)
qed

lemma gpu_containers_loop_eq:
  "gpu_containers_loop cs (reqs, lims, has_gpu) =
     (collect_items is_gpu_resource (concat (map container_requests cs)) reqs,
      collect_items is_gpu_resource (concat (map container_limits cs)) lims,
      has_gpu \<or> (\<exists>k\<in>fst ` set (concat (map container_requests cs) @
                                    concat (map container_limits cs)). is_gpu_resource k))"
proof (induction cs arbitrary: reqs lims has_gpu)
  case Nil
  then show ?case by simp
next
  case (Cons c cs)
  show ?case
    by (simp add: gpu_container_step_eq Cons.IH collect_items_append image_Un bex_Un) blast
qed

lemma gpu_scan_pod_eq:
  "gpu_scan_pod p =
     (collect_items is_gpu_resource (pod_requests p) [],
      collect_items is_gpu_resource (pod_limits p) [],
      \<exists>k\<in>fst ` set (pod_requests p @ pod_limits p). is_gpu_resource k)"
  by (cases "pod_containers p")
     (simp_all add: gpu_scan_pod_def pod_requests_def pod_limits_def items_of_def
        gpu_containers_loop_eq)

lemma gpu_workloads_loop_eq:
  "gpu_workloads_loop ps acc =
     acc @ map gpu_workload_of
       (filter (\<lambda>p. \<exists>k\<in>fst ` set (pod_requests p @ pod_limits p). is_gpu_resource k) ps)"
  by (induction ps arbitrary: acc) (simp_all add: gpu_scan_pod_eq)

lemma is_gpu_resource_key: "is_gpu_resource k \<longleftrightarrow> gpu_key k"
  by (simp add: is_gpu_resource_def gpu_key_def str_in_occurs)

lemma is_nvidia_label_key: "is_nvidia_label k \<longleftrightarrow> nvidia_label_key k"
  by (simp add: is_nvidia_label_def nvidia_label_key_def str_in_occurs)

lemma get_gpu_workloads_eq:
  "get_gpu_workloads g project =
     (if \<not> is_available g then Text ''OpenShift API not available''
      else case (if project = ''all'' then list_pod_for_all_namespaces g
                 else list_namespaced_pod g (Some project)) of
             Inl e \<Rightarrow> Text (''Error getting GPU workloads: '' @ e)
           | Inr pods \<Rightarrow>
               Json (map gpu_workload_of
                 (filter (\<lambda>p. \<exists>k\<in>fst ` set (pod_requests p @ pod_limits p). gpu_key k) pods)))"
  by (simp add: get_gpu_workloads_def gpu_workloads_loop_eq is_gpu_resource_key
      split: sum.splits)

text \<open>
  C10. When the gateway is available and the pod listing succeeds, \<open>get_gpu_workloads\<close>
  returns, in the order of the listing, exactly the pods of which some container
  declares a request or a limit whose key contains \<open>nvidia.com\<close>, or \<open>gpu\<close> up to
  case. Such a pod's entry has a non-empty \<open>gpu_requests\<close> or \<open>gpu_limits\<close>; the keys
  of \<open>gpu_requests\<close> are exactly the matching request keys of the pod's containers and
  each key has the quantity of the last container that declares it, and likewise for
  \<open>gpu_limits\<close>.
\<close>

theorem gpu_workloads_are_pods_declaring_gpu_keys:
  assumes "is_available g"
    and "(if project = ''all'' then list_pod_for_all_namespaces g
          else list_namespaced_pod g (Some project)) = Inr pods"
  shows "get_gpu_workloads g project =
           Json (map gpu_workload_of
             (filter (\<lambda>p. \<exists>k\<in>fst ` set (pod_requests p @ pod_limits p). gpu_key k) pods))
       \<and> (\<forall>p\<in>set pods. (\<exists>k\<in>fst ` set (pod_requests p @ pod_limits p). gpu_key k) \<longrightarrow>
             gw_gpu_requests (gpu_workload_of p) \<noteq> [] \<or> gw_gpu_limits (gpu_workload_of p) \<noteq> [])
       \<and> (\<forall>p\<in>set pods.
             fst ` set (gw_gpu_requests (gpu_workload_of p)) =
               {k \<in> fst ` set (pod_requests p). gpu_key k} \<and>
             map_of (gw_gpu_requests (gpu_workload_of p)) =
               map_of (rev (filter (\<lambda>kv. gpu_key (fst kv)) (pod_requests p))) \<and>
             fst ` set (gw_gpu_limits (gpu_workload_of p)) =
               {k \<in> fst ` set (pod_limits p). gpu_key k} \<and>
             map_of (gw_gpu_limits (gpu_workload_of p)) =
               map_of (rev (filter (\<lambda>kv. gpu_key (fst kv)) (pod_limits p))))"
proof (intro conjI ballI impI)
  show "get_gpu_workloads g project =
           Json (map gpu_workload_of
             (filter (\<lambda>p. \<exists>k\<in>fst ` set (pod_requests p @ pod_limits p). gpu_key k) pods))"
    using assms by (simp add: get_gpu_workloads_eq)
next
  fix p
  assume "\<exists>k\<in>fst ` set (pod_requests p @ pod_limits p). gpu_key k"
  then have "(\<exists>k\<in>fst ` set (pod_requests p). is_gpu_resource k) \<or>
             (\<exists>k\<in>fst ` set (pod_limits p). is_gpu_resource k)"
    by (auto simp: is_gpu_resource_key)
  then show "gw_gpu_requests (gpu_workload_of p) \<noteq> [] \<or> gw_gpu_limits (gpu_workload_of p) \<noteq> []"
    by (simp add: gpu_workload_of_def gpu_scan_pod_eq collect_items_empty)
next
  fix p
  show "fst ` set (gw_gpu_requests (gpu_workload_of p)) =
               {k \<in> fst ` set (pod_requests p). gpu_key k}"
    by (simp add: gpu_workload_of_def gpu_scan_pod_eq keys_collect_items is_gpu_resource_key)
  show "map_of (gw_gpu_requests (gpu_workload_of p)) =
               map_of (rev (filter (\<lambda>kv. gpu_key (fst kv)) (pod_requests p)))"
    by (simp add: gpu_workload_of_def gpu_scan_pod_eq map_of_collect_items is_gpu_resource_key)
  show "fst ` set (gw_gpu_limits (gpu_workload_of p)) =
               {k \<in> fst ` set (pod_limits p). gpu_key k}"
    by (simp add: gpu_workload_of_def gpu_scan_pod_eq keys_collect_items is_gpu_resource_key)
  show "map_of (gw_gpu_limits (gpu_workload_of p)) =
               map_of (rev (filter (\<lambda>kv. gpu_key (fst kv)) (pod_limits p)))"
    by (simp add: gpu_workload_of_def gpu_scan_pod_eq map_of_collect_items is_gpu_resource_key)
qed

theorem gpu_workloads_are_pods_declaring_gpu_keys_witness:
  "get_gpu_workloads cluster_gpu_workloads ''all'' =
     Json [\<lparr> gw_name = ''trainer'', gw_namespace = ''shop'', gw_status = ''Running'',
             gw_node = Some ''worker-1'',
             gw_gpu_requests = [(''nvidia.com/gpu'', ''2'')],
             gw_gpu_limits = [(''nvidia.com/gpu'', ''1'')],
             gw_created = ''2024-05-01T10:00:00Z'' \<rparr>,
           \<lparr> gw_name = ''shared'', gw_namespace = ''shop'', gw_status = ''Running'',
             gw_node = Some ''worker-1'',
             gw_gpu_requests = [],
             gw_gpu_limits = [(''example.com/GPU-share'', ''4'')],
             gw_created = ''2024-05-01T10:00:00Z'' \<rparr>]"
proof -
  have a: "is_available cluster_gpu_workloads"
    by (simp add: cluster_gpu_workloads_def quiet_cluster_def is_available_def)
  have l: "(if ''all'' = ''all'' then list_pod_for_all_namespaces cluster_gpu_workloads
            else list_namespaced_pod cluster_gpu_workloads (Some ''all'')) = Inr gpu_example_pods"
    by (simp add: cluster_gpu_workloads_def)
  have selected: "map gpu_workload_of
          (filter (\<lambda>p. \<exists>k\<in>fst ` set (pod_requests p @ pod_limits p). is_gpu_resource k)
             gpu_example_pods) =
        [\<lparr> gw_name = ''trainer'', gw_namespace = ''shop'', gw_status = ''Running'',
             gw_node = Some ''worker-1'',
             gw_gpu_requests = [(''nvidia.com/gpu'', ''2'')],
             gw_gpu_limits = [(''nvidia.com/gpu'', ''1'')],
             gw_created = ''2024-05-01T10:00:00Z'' \<rparr>,
           \<lparr> gw_name = ''shared'', gw_namespace = ''shop'', gw_status = ''Running'',
             gw_node = Some ''worker-1'',
             gw_gpu_requests = [],
             gw_gpu_limits = [(''example.com/GPU-share'', ''4'')],
             gw_created = ''2024-05-01T10:00:00Z'' \<rparr>]"
    by code_simp
  show ?thesis
    using gpu_workloads_are_pods_declaring_gpu_keys [OF a l, THEN conjunct1]
    by (simp only: is_gpu_resource_key [symmetric] selected)
qed

lemma gpu_resources_nonempty:
  "gn_gpu_resources (gpu_node_info_of n) \<noteq> [] \<longleftrightarrow>
     (\<exists>k\<in>fst ` set (items_of (node_allocatable n)). gpu_key k)"
  by (cases "node_allocatable n")
     (simp_all add: gpu_node_info_of_def items_of_def collect_items_empty is_gpu_resource_key)

lemma nvidia_labels_nonempty:
  "gn_nvidia_labels (gpu_node_info_of n) \<noteq> [] \<longleftrightarrow>
     (\<exists>k\<in>fst ` set (items_of (node_labels n)). nvidia_label_key k)"
  by (cases "node_labels n")
     (simp_all add: gpu_node_info_of_def items_of_def collect_items_empty is_nvidia_label_key)

lemma gpu_nodes_loop_eq:
  "gpu_nodes_loop ns acc =
     acc @ map gpu_node_info_of
       (filter (\<lambda>n. (\<exists>k\<in>fst ` set (items_of (node_allocatable n)). gpu_key k) \<or>
                     (\<exists>k\<in>fst ` set (items_of (node_labels n)). nvidia_label_key k)) ns)"
proof (induction ns arbitrary: acc)
  case Nil
  then show ?case by simp
next
  case (Cons n ns)
  show ?case
    using gpu_resources_nonempty [of n] nvidia_labels_nonempty [of n]
    by (simp add: Cons.IH)
qed

lemma nvidia_loop_eq:
  "nvidia_loop operators acc = acc @ filter is_nvidia_operator operators"
  by (induction operators arbitrary: acc) simp_all

lemma is_nvidia_operator_iff:
  "is_nvidia_operator operator \<longleftrightarrow>
     (\<exists>keyword\<in>set [''nvidia'', ''gpu'', ''cuda'', ''mellanox'', ''connectx''].
        occurs_in keyword (lower (operator_get_name operator)) \<or>
        occurs_in keyword (lower (operator_get_package operator)) \<or>
        occurs_in keyword (operator_display_name operator))"
  by (simp add: is_nvidia_operator_def nvidia_keywords_def str_in_occurs)

text \<open>
  C6, amended. Each tool has its own test. \<open>get_gpu_nodes\<close> returns the nodes with an
  allocatable resource key that contains \<open>nvidia.com\<close>, or \<open>gpu\<close> up to case, or with a
  label key that contains \<open>nvidia\<close> or \<open>gpu\<close> up to case. \<open>get_gpu_workloads\<close> returns
  the pods with a container request or limit key that contains \<open>nvidia.com\<close>, or \<open>gpu\<close>
  up to case. \<open>get_nvidia_operators\<close> returns the operators whose lower-cased name,
  package or CSV display name contains one of \<open>nvidia\<close>, \<open>gpu\<close>, \<open>cuda\<close>,
  \<open>mellanox\<close>, \<open>connectx\<close>.
\<close>

theorem each_tool_has_its_own_keyword_test:
  "get_gpu_nodes g =
     (if \<not> is_available g then Text ''OpenShift API not available''
      else case list_node g of
             Inl e \<Rightarrow> Text (''Error getting GPU nodes: '' @ e)
           | Inr nodes \<Rightarrow>
               Json (map gpu_node_info_of
                 (filter (\<lambda>n. (\<exists>k\<in>fst ` set (items_of (node_allocatable n)). gpu_key k) \<or>
                               (\<exists>k\<in>fst ` set (items_of (node_labels n)). nvidia_label_key k))
                    nodes)))
   \<and> get_gpu_workloads g project =
     (if \<not> is_available g then Text ''OpenShift API not available''
      else case (if project = ''all'' then list_pod_for_all_namespaces g
                 else list_namespaced_pod g (Some project)) of
             Inl e \<Rightarrow> Text (''Error getting GPU workloads: '' @ e)
           | Inr pods \<Rightarrow>
               Json (map gpu_workload_of
                 (filter (\<lambda>p. \<exists>k\<in>fst ` set (pod_requests p @ pod_limits p). gpu_key k) pods)))
   \<and> get_nvidia_operators g project =
     (if \<not> is_available g then Text ''OpenShift API not available''
      else Json
        (filter (\<lambda>operator.
            \<exists>keyword\<in>set [''nvidia'', ''gpu'', ''cuda'', ''mellanox'', ''connectx''].
              occurs_in keyword (lower (operator_get_name operator)) \<or>
              occurs_in keyword (lower (operator_get_package operator)) \<or>
              occurs_in keyword (operator_display_name operator))
           (custom_operators g project (helm_operators g (olm_operators g project [])))))"
proof (intro conjI)
  show "get_gpu_nodes g =
     (if \<not> is_available g then Text ''OpenShift API not available''
      else case list_node g of
             Inl e \<Rightarrow> Text (''Error getting GPU nodes: '' @ e)
           | Inr nodes \<Rightarrow>
               Json (map gpu_node_info_of
                 (filter (\<lambda>n. (\<exists>k\<in>fst ` set (items_of (node_allocatable n)). gpu_key k) \<or>
                               (\<exists>k\<in>fst ` set (items_of (node_labels n)). nvidia_label_key k))
                    nodes)))"
    by (simp add: get_gpu_nodes_def gpu_nodes_loop_eq split: sum.splits)
  show "get_gpu_workloads g project =
     (if \<not> is_available g then Text ''OpenShift API not available''
      else case (if project = ''all'' then list_pod_for_all_namespaces g
                 else list_namespaced_pod g (Some project)) of
             Inl e \<Rightarrow> Text (''Error getting GPU workloads: '' @ e)
           | Inr pods \<Rightarrow>
               Json (map gpu_workload_of
                 (filter (\<lambda>p. \<exists>k\<in>fst ` set (pod_requests p @ pod_limits p). gpu_key k) pods)))"
    by (rule get_gpu_workloads_eq)
  show "get_nvidia_operators g project =
     (if \<not> is_available g then Text ''OpenShift API not available''
      else Json
        (filter (\<lambda>operator.
            \<exists>keyword\<in>set [''nvidia'', ''gpu'', ''cuda'', ''mellanox'', ''connectx''].
              occurs_in keyword (lower (operator_get_name operator)) \<or>
              occurs_in keyword (lower (operator_get_package operator)) \<or>
              occurs_in keyword (operator_display_name operator))
           (custom_operators g project (helm_operators g (olm_operators g project [])))))"
    by (simp only: is_nvidia_operator_iff [symmetric])
       (simp add: get_nvidia_operators_def get_all_operators_def json_loads_def nvidia_loop_eq)
qed

text \<open>
  C6, as the specification states it, fails. The node \<open>gpu-node-1\<close> with the label
  value \<open>nvidia-tesla\<close> matches the GPU taxonomy under the specification's classifier,
  yet \<open>get_gpu_nodes\<close> does not return it: node names and label values are not
  examined. Nor is one predicate shared: \<open>cuda-version\<close> is not an NVIDIA label key,
  while an operator of that name is an NVIDIA operator.
\<close>

theorem classification_is_not_uniform:
  "get_gpu_nodes cluster_gpu_named_node = Json [] \<and>
   spec_classify (node_candidate gpu_named_node) spec_gpu_taxonomy \<and>
   \<not> is_nvidia_label ''cuda-version'' \<and>
   is_nvidia_operator
     (Custom \<lparr> custom_name = ''cuda-version'', custom_namespace = ''shop'',
               custom_replicas = None, custom_ready_replicas = None,
               custom_image = None, custom_created = '''' \<rparr>)"
  by code_simp

section \<open>Properties of the health reports\<close>

lemma dpu_health_summary:
  assumes "get_bluefield_dpu_health g = Json r"
  shows "dr_summary r =
           dpu_summary (dr_network_operator_status r) (dr_dpu_nodes r) (dr_dpu_workloads r)
             (dr_recent_dpu_errors r)"
  using assms
  by (auto simp: get_bluefield_dpu_health_def dpu_health_try_def bind_exn_def Let_def
      split: if_splits sum.splits)

lemma gpu_health_summary:
  assumes "get_gpu_operator_health g now = Json r"
  shows "\<exists>healthy. hr_summary r =
           gpu_summary (hr_operator_status r) healthy (hr_pods_status r) (hr_gpu_nodes r)
             (hr_recent_errors r) now"
  using assms
  by (auto simp: get_gpu_operator_health_def gpu_health_try_def bind_exn_def Let_def
      split: if_splits sum.splits)

lemma dpu_health_returns:
  assumes "is_available g" and "list_node g = Inr nodes"
    and "list_pod_for_all_namespaces g = Inr pods"
  shows "\<exists>r. get_bluefield_dpu_health g = Json r"
  using assms
  by (simp add: get_bluefield_dpu_health_def dpu_health_try_def bind_exn_def Let_def
      json_loads_def get_nvidia_operators_def get_all_operators_def
      get_bluefield_dpu_nodes_def get_bluefield_dpu_workloads_def search_gpu_logs_def)

text \<open>
  C7, amended. The summary of \<open>get_bluefield_dpu_health\<close> has \<open>health_status\<close>, which
  is \<open>degraded\<close> when \<open>recent_dpu_errors\<close> is not empty and \<open>healthy\<close> otherwise, and
  \<open>network_operator_installed\<close>, which is false when no network operator was found;
  the report is produced whenever the gateway is available and the node and pod
  listings succeed, whatever operators exist. The summary of
  \<open>get_gpu_operator_health\<close> has \<open>operator_installed\<close>, false when no GPU operator was
  found, and \<open>recent_errors_count\<close>, the number of recent errors of the report, and
  no \<open>health_status\<close>.
\<close>

theorem health_status_is_in_the_dpu_summary_only:
  "(get_bluefield_dpu_health g = Json r \<longrightarrow>
      map_of (dr_summary r) ''health_status'' =
        Some (JStr (if dr_recent_dpu_errors r = [] then ''healthy'' else ''degraded'')) \<and>
      map_of (dr_summary r) ''network_operator_installed'' =
        Some (JBool (dr_network_operator_status r \<noteq> None)))
   \<and> (is_available g \<and> list_node g = Inr nodes \<and> list_pod_for_all_namespaces g = Inr pods \<longrightarrow>
      (\<exists>report. get_bluefield_dpu_health g = Json report))
   \<and> (get_gpu_operator_health g now = Json r' \<longrightarrow>
      map_of (hr_summary r') ''health_status'' = None \<and>
      map_of (hr_summary r') ''operator_installed'' =
        Some (JBool (hr_operator_status r' \<noteq> None)) \<and>
      map_of (hr_summary r') ''recent_errors_count'' =
        Some (JInt (int (length (hr_recent_errors r')))))"
proof (intro conjI impI)
  assume "get_bluefield_dpu_health g = Json r"
  then have s: "dr_summary r =
           dpu_summary (dr_network_operator_status r) (dr_dpu_nodes r) (dr_dpu_workloads r)
             (dr_recent_dpu_errors r)"
    by (rule dpu_health_summary)
  show "map_of (dr_summary r) ''health_status'' =
        Some (JStr (if dr_recent_dpu_errors r = [] then ''healthy'' else ''degraded''))"
    by (simp add: s dpu_summary_def)
  show "map_of (dr_summary r) ''network_operator_installed'' =
        Some (JBool (dr_network_operator_status r \<noteq> None))"
    by (simp add: s dpu_summary_def)
next
  assume "is_available g \<and> list_node g = Inr nodes \<and> list_pod_for_all_namespaces g = Inr pods"
  then show "\<exists>report. get_bluefield_dpu_health g = Json report"
    using dpu_health_returns by blast
next
  assume "get_gpu_operator_health g now = Json r'"
  then obtain healthy where s: "hr_summary r' =
           gpu_summary (hr_operator_status r') healthy (hr_pods_status r') (hr_gpu_nodes r')
             (hr_recent_errors r') now"
    using gpu_health_summary by blast
  show "map_of (hr_summary r') ''health_status'' = None"
    by (simp add: s gpu_summary_def)
  show "map_of (hr_summary r') ''operator_installed'' =
        Some (JBool (hr_operator_status r' \<noteq> None))"
    by (simp add: s gpu_summary_def)
  show "map_of (hr_summary r') ''recent_errors_count'' =
        Some (JInt (int (length (hr_recent_errors r'))))"
    by (simp add: s gpu_summary_def)
qed


text \<open>
  C7, as the specification states it, fails: the summary that
  \<open>get_gpu_operator_health\<close> computes on the quiet cluster has no \<open>health_status\<close>.
\<close>

theorem gpu_summary_has_no_health_status:
  "get_gpu_operator_health quiet_cluster ''2024-05-01T12:00:00'' = Json quiet_gpu_report \<and>
   map_of (hr_summary quiet_gpu_report) ''health_status'' = None \<and>
   map_of (hr_summary quiet_gpu_report) ''operator_installed'' = Some (JBool False)"
  by code_simp

lemma dpu_health_driver_error:
  "get_bluefield_dpu_health cluster_driver_error = Json driver_error_dpu_report"
  by code_simp

lemma gpu_health_quiet:
  "get_gpu_operator_health quiet_cluster ''2024-05-01T12:00:00'' = Json quiet_gpu_report"
  by code_simp

theorem health_status_is_in_the_dpu_summary_only_witness:
  "map_of (dr_summary driver_error_dpu_report) ''health_status'' = Some (JStr ''degraded'') \<and>
   map_of (dr_summary driver_error_dpu_report) ''network_operator_installed'' =
     Some (JBool False) \<and>
   (\<exists>report. get_bluefield_dpu_health cluster_driver_error = Json report) \<and>
   map_of (hr_summary quiet_gpu_report) ''health_status'' = None \<and>
   map_of (hr_summary quiet_gpu_report) ''operator_installed'' = Some (JBool False) \<and>
   map_of (hr_summary quiet_gpu_report) ''recent_errors_count'' = Some (JInt 0)"
proof -
  have available: "is_available cluster_driver_error \<and>
                   list_node cluster_driver_error = Inr [] \<and>
                   list_pod_for_all_namespaces cluster_driver_error = Inr []"
    by (simp add: cluster_driver_error_def quiet_cluster_def is_available_def)
  have errors: "dr_recent_dpu_errors driver_error_dpu_report \<noteq> []"
    by (simp add: driver_error_dpu_report_def)
  have status: "dr_network_operator_status driver_error_dpu_report = None"
       "hr_operator_status quiet_gpu_report = None"
       "hr_recent_errors quiet_gpu_report = []"
    by (simp_all add: driver_error_dpu_report_def quiet_gpu_report_def)
  note dpu = health_status_is_in_the_dpu_summary_only
    [where g = cluster_driver_error and r = driver_error_dpu_report
       and nodes = "[]" and pods = "[]"]
  note gpu = health_status_is_in_the_dpu_summary_only
    [where g = quiet_cluster and now = "''2024-05-01T12:00:00''" and r' = quiet_gpu_report]
  show ?thesis
    using dpu [THEN conjunct1, THEN mp, OF dpu_health_driver_error]
      dpu [THEN conjunct2, THEN conjunct1, THEN mp, OF available]
      gpu [THEN conjunct2, THEN conjunct2, THEN mp, OF gpu_health_quiet]
      errors status
    by simp
qed

section \<open>Properties of the managed-cluster requests\<close>

text \<open>
  The header lookup of the non-stdio transports stands before the \<open>try\<close> block: an
  exception there leaves \<open>make_request\<close>.
\<close>

lemma header_lookup_exception_escapes:
  assumes "ocm_is_available env" and "mcp_transport env \<noteq> ''stdio''"
    and "header_offline_token env = Inl e"
  shows "make_request env url = Inl e"
  using assms by (simp add: make_request_def offline_token_lookup_def bind_exn_def)

lemma make_request_failure:
  assumes "ocm_is_available env" and "offline_token_lookup env = Inr offline_token"
    and "exchange_token env offline_token = Inl e \<or>
         (exchange_token env offline_token = Inr token \<and>
          authenticated_get env url token = Inl e)"
  shows "make_request env url = Inr JNull"
  using assms by (auto simp: make_request_def bind_exn_def)

lemma items_or_message_none: "items_or_message message entry JNull = Inr (Text message)"
  by (simp add: items_or_message_def)

text \<open>
  C9. With the credentials present and the offline token looked up, when the token
  exchange raises, or it succeeds and the authenticated GET that follows raises (a
  failed call, an error status or a body that is not JSON), \<open>make_request\<close> returns
  \<open>None\<close>; \<open>ocm_get_clusters\<close> and \<open>ocm_get_cluster_logs\<close> then return their
  \<open>No ... found or invalid response.\<close> message. None of the three raises.
\<close>

theorem ocm_failure_gives_none:
  assumes "ocm_is_available env" and "offline_token_lookup env = Inr offline_token"
  shows "(exchange_token env offline_token = Inl e \<or>
           (exchange_token env offline_token = Inr token \<and>
            authenticated_get env url token = Inl e)
          \<longrightarrow> make_request env url = Inr JNull)
       \<and> (exchange_token env offline_token = Inl e \<or>
           (exchange_token env offline_token = Inr token \<and>
            authenticated_get env (clusters_url env) token = Inl e)
          \<longrightarrow> ocm_get_clusters env = Inr (Text ''No clusters found or invalid response.''))
       \<and> (exchange_token env offline_token = Inl e \<or>
           (exchange_token env offline_token = Inr token \<and>
            authenticated_get env (cluster_logs_url env cluster_id) token = Inl e)
          \<longrightarrow> ocm_get_cluster_logs env cluster_id =
                Inr (Text ''No logs found or invalid response.''))"
proof (intro conjI impI)
  assume "exchange_token env offline_token = Inl e \<or>
           (exchange_token env offline_token = Inr token \<and>
            authenticated_get env url token = Inl e)"
  then show "make_request env url = Inr JNull"
    by (rule make_request_failure [OF assms])
next
  assume "exchange_token env offline_token = Inl e \<or>
           (exchange_token env offline_token = Inr token \<and>
            authenticated_get env (clusters_url env) token = Inl e)"
  then have "make_request env (clusters_url env) = Inr JNull"
    by (rule make_request_failure [OF assms])
  then show "ocm_get_clusters env = Inr (Text ''No clusters found or invalid response.'')"
    using assms(1) by (simp add: ocm_get_clusters_def bind_exn_def items_or_message_none)
next
  assume "exchange_token env offline_token = Inl e \<or>
           (exchange_token env offline_token = Inr token \<and>
            authenticated_get env (cluster_logs_url env cluster_id) token = Inl e)"
  then have "make_request env (cluster_logs_url env cluster_id) = Inr JNull"
    by (rule make_request_failure [OF assms])
  then show "ocm_get_cluster_logs env cluster_id =
                Inr (Text ''No logs found or invalid response.'')"
    using assms(1) by (simp add: ocm_get_cluster_logs_def bind_exn_def items_or_message_none)
qed

theorem ocm_failure_gives_none_witness:
  "make_request ocm_token_exchange_fails ''https://api.openshift.com/api/accounts'' = Inr JNull \<and>
   ocm_get_clusters ocm_token_exchange_fails =
     Inr (Text ''No clusters found or invalid response.'') \<and>
   ocm_get_cluster_logs ocm_token_exchange_fails ''c-123'' =
     Inr (Text ''No logs found or invalid response.'') \<and>
   make_request ocm_get_unauthorized ''https://api.openshift.com/api/accounts'' = Inr JNull \<and>
   ocm_get_clusters ocm_get_unauthorized =
     Inr (Text ''No clusters found or invalid response.'') \<and>
   ocm_get_cluster_logs ocm_get_unauthorized ''c-123'' =
     Inr (Text ''No logs found or invalid response.'')"
proof -
  have a1: "ocm_is_available ocm_token_exchange_fails"
    by code_simp
  have t1: "offline_token_lookup ocm_token_exchange_fails = Inr (Some ''offline'')"
    by code_simp
  have f1: "exchange_token ocm_token_exchange_fails (Some ''offline'') = Inl ''ConnectError''"
    by code_simp
  have a2: "ocm_is_available ocm_get_unauthorized"
    by code_simp
  have t2: "offline_token_lookup ocm_get_unauthorized = Inr (Some ''offline'')"
    by code_simp
  have x2: "exchange_token ocm_get_unauthorized (Some ''offline'') = Inr (JStr ''abc'')"
    by code_simp
  have f2: "authenticated_get ocm_get_unauthorized url (JStr ''abc'') = Inl ''401 Unauthorized''"
    for url
    by (simp add: authenticated_get_def ocm_get_unauthorized_def bind_exn_def)
  note first = ocm_failure_gives_none [OF a1 t1, where e = "''ConnectError''"]
  note second = ocm_failure_gives_none [OF a2 t2, where e = "''401 Unauthorized''" and token = "JStr ''abc''"]
  show ?thesis
    using first [of _ "''https://api.openshift.com/api/accounts''" "''c-123''"]
      second [of "''https://api.openshift.com/api/accounts''" "''c-123''"]
      f1 x2 f2
    by simp
qed

end
